theory Spec2Isabelle
  imports Complex_Main
begin

section \<open>Vectors and matrices of the plane estimator\<close>

text \<open>
  The arrays of \<^verbatim>\<open>estimate_plane.py\<close> that hold three numbers are triples, the 3x3
  matrices are triples of rows. Python's floats are read as real numbers: the theory is
  about the arithmetic the code writes down, evaluated exactly. The real numbers have no
  rounding, no overflow and no NaN; what float64 does where a value overflows is modelled
  apart, in the section on float64 arithmetic below.
\<close>

type_synonym vec3 = "real \<times> real \<times> real"
type_synonym mat3 = "vec3 \<times> vec3 \<times> vec3"

fun vadd :: "vec3 \<Rightarrow> vec3 \<Rightarrow> vec3" where
  "vadd (x1, y1, z1) (x2, y2, z2) = (x1 + x2, y1 + y2, z1 + z2)"

fun vsub :: "vec3 \<Rightarrow> vec3 \<Rightarrow> vec3" where
  "vsub (x1, y1, z1) (x2, y2, z2) = (x1 - x2, y1 - y2, z1 - z2)"

fun vscale :: "real \<Rightarrow> vec3 \<Rightarrow> vec3" where
  "vscale k (x, y, z) = (k * x, k * y, k * z)"

fun vdiv :: "vec3 \<Rightarrow> real \<Rightarrow> vec3" where
  "vdiv (x, y, z) k = (x / k, y / k, z / k)"

fun dot :: "vec3 \<Rightarrow> vec3 \<Rightarrow> real" where
  "dot (x1, y1, z1) (x2, y2, z2) = x1 * x2 + y1 * y2 + z1 * z2"

fun cross :: "vec3 \<Rightarrow> vec3 \<Rightarrow> vec3" where
  "cross (x1, y1, z1) (x2, y2, z2) =
     (y1 * z2 - z1 * y2, z1 * x2 - x1 * z2, x1 * y2 - y1 * x2)"

text \<open>\<^verbatim>\<open>np.linalg.norm\<close> of a vector: the square root of the sum of the squares.\<close>

fun norm3 :: "vec3 \<Rightarrow> real" where
  "norm3 (x, y, z) = sqrt (x * x + y * y + z * z)"

section \<open>project_to_plane\<close>

text \<open>
  \<^verbatim>\<open>
  def project_to_plane(p0, plane):
      x0 = p0[0]; y0 = p0[1]; z0 = p0[2]
      a = plane[0]; b = plane[1]; c = plane[2]
      dz = (a * x0 + b * y0 + c - z0) / (a * a + b * b + 1)
      x = x0 - a * dz
      y = y0 - b * dz
      z = z0 + dz
      return np.array([x, y, z])
  \<close>
\<close>

fun project_to_plane :: "vec3 \<Rightarrow> vec3 \<Rightarrow> vec3" where
  "project_to_plane (x0, y0, z0) (a, b, c) =
     (let dz = (a * x0 + b * y0 + c - z0) / (a * a + b * b + 1);
          x = x0 - a * dz;
          y = y0 - b * dz;
          z = z0 + dz
      in (x, y, z))"

section \<open>Library functions used by estimate_plane\<close>

text \<open>
  Outcomes of the Python code that are not a returned value. The first ones are the
  exceptions the code, numpy and OpenCV raise. \<open>FloatingPointNaN\<close> is not an exception: numpy
  divides 0 by 0 with a warning and goes on with NaN entries, which no real number stands
  for, so the model reports that run as an outcome of its own.
\<close>

datatype py_error =
    TypeError
  | IndexError
  | ValueError
  | AssertionError
  | LinAlgError
  | RuntimeError_sizes_not_1d
  | RuntimeError_sizes_count
  | CvError
  | FloatingPointNaN

fun mat_vec :: "mat3 \<Rightarrow> vec3 \<Rightarrow> vec3" where
  "mat_vec (r0, r1, r2) v = (dot r0 v, dot r1 v, dot r2 v)"

fun mat_col :: "mat3 \<Rightarrow> nat \<Rightarrow> vec3" where
  "mat_col ((a, b, c), (d, e, f), (g, h, i)) j =
     (if j = 0 then (a, d, g) else if j = 1 then (b, e, h) else (c, f, i))"

fun mat_mul :: "mat3 \<Rightarrow> mat3 \<Rightarrow> mat3" where
  "mat_mul (r0, r1, r2) M =
     ((dot r0 (mat_col M 0), dot r0 (mat_col M 1), dot r0 (mat_col M 2)),
      (dot r1 (mat_col M 0), dot r1 (mat_col M 1), dot r1 (mat_col M 2)),
      (dot r2 (mat_col M 0), dot r2 (mat_col M 1), dot r2 (mat_col M 2)))"

fun det3 :: "mat3 \<Rightarrow> real" where
  "det3 ((a, b, c), (d, e, f), (g, h, i)) =
     a * (e * i - f * h) - b * (d * i - f * g) + c * (d * h - e * g)"

text \<open>
  \<^verbatim>\<open>np.linalg.inv\<close> on a 3x3 matrix in exact arithmetic: it raises \<^verbatim>\<open>LinAlgError\<close> on a
  singular matrix (its elimination meets a zero pivot exactly when the determinant is
  zero) and returns the inverse otherwise, here the adjugate divided by the determinant.
  In float64 a matrix with an infinite entry has no zero pivot and comes back as NaN
  (\<open>inv_fp\<close> below).
\<close>

fun inv3 :: "mat3 \<Rightarrow> py_error + mat3" where
  "inv3 ((a, b, c), (d, e, f), (g, h, i)) =
     (let dt = det3 ((a, b, c), (d, e, f), (g, h, i)) in
      if dt = 0 then Inl LinAlgError
      else Inr (((e * i - f * h) / dt, (c * h - b * i) / dt, (b * f - c * e) / dt),
                ((f * g - d * i) / dt, (a * i - c * g) / dt, (c * d - a * f) / dt),
                ((d * h - e * g) / dt, (b * g - a * h) / dt, (a * e - b * d) / dt)))"

definition DBL_EPSILON :: real where
  "DBL_EPSILON = 1 / 2 ^ 52"

text \<open>
  \<^verbatim>\<open>cv2.Rodrigues\<close> from a rotation vector to a matrix, as OpenCV computes it: with
  \<open>theta\<close> the norm of the vector, the identity when \<open>theta < DBL_EPSILON\<close>, and otherwise
  \<open>cos theta * I + (1 - cos theta) * r * r^T + sin theta * [r]_x\<close> for the unit axis
  \<open>r = rvec / theta\<close>.
\<close>

fun Rodrigues :: "vec3 \<Rightarrow> mat3" where
  "Rodrigues (vx, vy, vz) =
     (let theta = norm3 (vx, vy, vz) in
      if theta < DBL_EPSILON then ((1, 0, 0), (0, 1, 0), (0, 0, 1))
      else
        (let c = cos theta; s = sin theta; c1 = 1 - c;
             rx = vx / theta; ry = vy / theta; rz = vz / theta
         in ((c + c1 * rx * rx, c1 * rx * ry - s * rz, c1 * rx * rz + s * ry),
             (c1 * rx * ry + s * rz, c + c1 * ry * ry, c1 * ry * rz - s * rx),
             (c1 * rx * rz - s * ry, c1 * ry * rz + s * rx, c + c1 * rz * rz))))"

text \<open>\<^verbatim>\<open>math.atan2(y, x)\<close>, the angle of the point \<open>(x, y)\<close> in \<open>(-pi, pi]\<close>.\<close>

definition atan2 :: "real \<Rightarrow> real \<Rightarrow> real" where
  "atan2 y x =
     (if 0 < x then arctan (y / x)
      else if x < 0 then (if 0 \<le> y then arctan (y / x) + pi else arctan (y / x) - pi)
      else if 0 < y then pi / 2
      else if y < 0 then - (pi / 2)
      else 0)"

section \<open>estimate_plane\<close>

text \<open>
  The point cloud loaded from the file is the list of its rows. The design matrix \<open>A\<close>
  has the rows \<open>[x_i, y_i, 1]\<close> and \<open>B\<close> the entries \<open>z_i\<close>;
  \<^verbatim>\<open>plane = matmul(matmul(inv(matmul(A.T, A)), A.T), B)\<close>.
\<close>

fun design_row :: "vec3 \<Rightarrow> vec3" where
  "design_row (x, y, z) = (x, y, 1)"

fun vsum :: "vec3 list \<Rightarrow> vec3" where
  "vsum [] = (0, 0, 0)"
| "vsum (v # vs) = vadd v (vsum vs)"

text \<open>\<^verbatim>\<open>matmul(A.T, A)\<close>: entry \<open>(i, j)\<close> is the sum over the rows of \<open>A[k, i] * A[k, j]\<close>.\<close>

fun outer_row :: "vec3 \<Rightarrow> mat3" where
  "outer_row (x, y, w) = ((x * x, x * y, x * w), (y * x, y * y, y * w), (w * x, w * y, w * w))"

fun madd :: "mat3 \<Rightarrow> mat3 \<Rightarrow> mat3" where
  "madd (r0, r1, r2) (s0, s1, s2) = (vadd r0 s0, vadd r1 s1, vadd r2 s2)"

fun AtA :: "vec3 list \<Rightarrow> mat3" where
  "AtA [] = ((0, 0, 0), (0, 0, 0), (0, 0, 0))"
| "AtA (p # ps) = madd (outer_row (design_row p)) (AtA ps)"

text \<open>
  \<^verbatim>\<open>matmul(inv(AtA), A.T)\<close> has one column per point, the inverse applied to the point's
  design row; multiplying by \<open>B\<close> sums the columns weighted by the \<open>z_i\<close>.
\<close>

fun third :: "vec3 \<Rightarrow> real" where
  "third (x, y, z) = z"

definition fit_plane :: "vec3 list \<Rightarrow> py_error + vec3" where
  "fit_plane points =
     (case inv3 (AtA points) of
        Inl e \<Rightarrow> Inl e
      | Inr Mi \<Rightarrow> Inr (vsum (map (\<lambda>p. vscale (third p) (mat_vec Mi (design_row p))) points)))"

definition centroid :: "vec3 list \<Rightarrow> vec3" where
  "centroid points = vdiv (vsum points) (real (length points))"

text \<open>
  The 4x4 transform \<^verbatim>\<open>T = np.eye(4); T[0:3, 0:3] = R; T[0:3, 3] = origin\<close>, as the list
  of its rows.
\<close>

fun transform4 :: "mat3 \<Rightarrow> vec3 \<Rightarrow> real list list" where
  "transform4 ((a, b, c), (d, e, f), (g, h, i)) (tx, ty, tz) =
     [[a, b, c, tx], [d, e, f, ty], [g, h, i, tz], [0, 0, 0, 1]]"

text \<open>Column \<open>j\<close> of the rotation block \<^verbatim>\<open>T[0:3, j]\<close>.\<close>

definition rotation_col :: "real list list \<Rightarrow> nat \<Rightarrow> vec3" where
  "rotation_col T j = (T ! 0 ! j, T ! 1 ! j, T ! 2 ! j)"

text \<open>
  The first rotation: \<^verbatim>\<open>src = [0, 0, 1]\<close>, \<^verbatim>\<open>tgt = [-a, -b, 1]\<close> normalised, their sum
  \<open>avr\<close>, and the assertion on its norm.
\<close>

definition normal_target :: "vec3 \<Rightarrow> vec3" where
  "normal_target plane =
     (case plane of (a, b, c) \<Rightarrow> vdiv (- a, - b, 1) (norm3 (- a, - b, 1)))"

definition normal_avr :: "vec3 \<Rightarrow> vec3" where
  "normal_avr plane = vadd (0, 0, 1) (normal_target plane)"

text \<open>
  \<^verbatim>\<open>
  def estimate_plane(points_file):
      points = np.load(points_file)
      n = points.shape[0]
      A = np.hstack((points[:, 0:2], np.ones((n, 1))))
      B = points[:, 2]
      plane = np.matmul(np.matmul(np.linalg.inv(np.matmul(A.T, A)), A.T), B)
      centroid = np.sum(points, axis=0) / n
      origin = project_to_plane(centroid, plane)
      a = plane[0]; b = plane[1]; c = plane[2]
      src = np.array([0., 0., 1.])
      tgt = np.array([-a, -b, 1])
      tgt /= np.linalg.norm(tgt)
      avr = src + tgt
      assert np.linalg.norm(avr) > 0.01
      avr /= np.linalg.norm(avr)
      avr *= np.pi
      R1, _ = cv2.Rodrigues(avr)
      src = np.array([1., 0., 0.])
      tgt = project_to_plane(points[0], plane) - origin
      tgt = np.matmul(np.linalg.inv(R1), tgt)
      tgt /= np.linalg.norm(tgt)
      sine = np.linalg.norm(np.cross(src, tgt))
      cosine = np.dot(src, tgt)
      theta = np.math.atan2(sine, cosine)
      R2, _ = cv2.Rodrigues(np.array([0., 0., 1.]) * theta)
      R = np.matmul(R1, R2)
      T = np.eye(4)
      T[0:3, 0:3] = R
      T[0:3, 3] = origin
      return T
  \<close>
  In exact arithmetic the norm of \<open>[-a, -b, 1]\<close> is at least 1, so the first division is
  by a non-zero number. The second norm is checked by the assertion. The third one can be
  zero (the first point projects onto the origin): numpy then fills \<open>tgt\<close> with NaN, and
  the model returns \<open>FloatingPointNaN\<close>. This definition is the function on inputs whose
  intermediate values stay finite; \<open>estimate_plane_fp_assert\<close> below follows the same lines
  where they overflow.
\<close>

definition estimate_plane :: "vec3 list \<Rightarrow> py_error + real list list" where
  "estimate_plane points =
     (case fit_plane points of
        Inl e \<Rightarrow> Inl e
      | Inr plane \<Rightarrow>
          (let origin = project_to_plane (centroid points) plane;
               avr = normal_avr plane
           in if \<not> (norm3 avr > 1 / 100) then Inl AssertionError
              else
                (let avr1 = vdiv avr (norm3 avr);
                     avr2 = vscale pi avr1;
                     R1 = Rodrigues avr2
                 in case points of
                      [] \<Rightarrow> Inl IndexError
                    | p0 # rest \<Rightarrow>
                        (let tgt = vsub (project_to_plane p0 plane) origin in
                         case inv3 R1 of
                           Inl e \<Rightarrow> Inl e
                         | Inr R1inv \<Rightarrow>
                             (let tgt1 = mat_vec R1inv tgt in
                              if norm3 tgt1 = 0 then Inl FloatingPointNaN
                              else
                                (let tgt2 = vdiv tgt1 (norm3 tgt1);
                                     sine = norm3 (cross (1, 0, 0) tgt2);
                                     cosine = dot (1, 0, 0) tgt2;
                                     theta = atan2 sine cosine;
                                     R2 = Rodrigues (vscale theta (0, 0, 1));
                                     R = mat_mul R1 R2
                                 in Inr (transform4 R origin)))))))"

text \<open>
  The direction the frame's X axis is meant to take: from the frame origin to the
  projection of the first input point onto the plane, normalised.
\<close>

definition first_point_direction :: "vec3 list \<Rightarrow> vec3 \<Rightarrow> vec3" where
  "first_point_direction points plane =
     (let d = vsub (project_to_plane (hd points) plane)
                (project_to_plane (centroid points) plane)
      in vdiv d (norm3 d))"

text \<open>A point cloud for the examples: four points of a square in the plane \<open>z = 0\<close>.\<close>

definition square_points :: "vec3 list" where
  "square_points = [(0, 1, 0), (1, 0, 0), (0, - 1, 0), (- 1, 0, 0)]"

section \<open>numpy arrays\<close>

text \<open>
  A numpy array is its shape and its entries in row-major order; an array has as many
  entries as the product of its shape (\<open>nd_ok\<close>). \<^verbatim>\<open>np.empty\<close> is only called with a
  zero axis in this program, so its result has no entries.
\<close>

datatype 'a ndarray = NDArray (nd_shape: "nat list") (nd_data: "'a list")

definition nd_ok :: "'a ndarray \<Rightarrow> bool" where
  "nd_ok a = (length (nd_data a) = prod_list (nd_shape a))"

definition np_empty :: "nat list \<Rightarrow> 'a ndarray" where
  "np_empty shp = NDArray shp []"

text \<open>\<^verbatim>\<open>a[i]\<close> for \<open>0 \<le> i\<close>: the \<open>i\<close>-th block along the first axis.\<close>

definition nd_index :: "'a ndarray \<Rightarrow> nat \<Rightarrow> py_error + 'a ndarray" where
  "nd_index a i =
     (case nd_shape a of
        [] \<Rightarrow> Inl IndexError
      | s0 # rest \<Rightarrow>
          if i < s0
          then Inr (NDArray rest (take (prod_list rest) (drop (i * prod_list rest) (nd_data a))))
          else Inl IndexError)"

text \<open>\<^verbatim>\<open>a[i, j]\<close>, that is \<^verbatim>\<open>a[i][j]\<close>.\<close>

definition nd_index2 :: "'a ndarray \<Rightarrow> nat \<Rightarrow> nat \<Rightarrow> py_error + 'a ndarray" where
  "nd_index2 a i j = (case nd_index a i of Inl e \<Rightarrow> Inl e | Inr r \<Rightarrow> nd_index r j)"

text \<open>The first error of a list of results, or all the values: a loop that raises stops.\<close>

fun collect :: "(py_error + 'a) list \<Rightarrow> py_error + 'a list" where
  "collect [] = Inr []"
| "collect (Inl e # rs) = Inl e"
| "collect (Inr v # rs) = (case collect rs of Inl e \<Rightarrow> Inl e | Inr vs \<Rightarrow> Inr (v # vs))"

text \<open>An index into an axis of the given size: negative indices count from the end.\<close>

definition wrap_index :: "nat \<Rightarrow> int \<Rightarrow> py_error + nat" where
  "wrap_index len i =
     (if 0 \<le> i \<and> i < int len then Inr (nat i)
      else if - int len \<le> i \<and> i < 0 then Inr (nat (i + int len))
      else Inl IndexError)"

definition broadcast_dim :: "nat \<Rightarrow> nat \<Rightarrow> nat option" where
  "broadcast_dim p q =
     (if p = q then Some p else if p = 1 then Some q else if q = 1 then Some p else None)"

text \<open>
  \<^verbatim>\<open>np.take_along_axis(arr, indices, axis=1)\<close> for indices of shape \<open>(m, 1)\<close> or
  \<open>(m, 1, 1)\<close>, given as the list \<open>sel\<close> of their \<open>m\<close> entries and their number of axes
  \<open>ndim\<close>. The array must have as many axes as the indices. Entry \<open>[i, 0, ...]\<close> of the
  result is \<open>arr[i, sel[i], ...]\<close>; the first axes of the array and of the indices
  broadcast against each other, the later axes of the indices have size 1 and broadcast
  to the array's.
\<close>

definition take_along_axis1 :: "'a ndarray \<Rightarrow> int list \<Rightarrow> nat \<Rightarrow> py_error + 'a ndarray" where
  "take_along_axis1 arr sel ndim =
     (if length (nd_shape arr) \<noteq> ndim then Inl ValueError
      else
        (case nd_shape arr of
           s0 # s1 # rest \<Rightarrow>
             (case broadcast_dim s0 (length sel) of
                None \<Rightarrow> Inl IndexError
              | Some rows \<Rightarrow>
                  (case collect (map (wrap_index s1) sel) of
                     Inl e \<Rightarrow> Inl e
                   | Inr js \<Rightarrow>
                       Inr (NDArray (rows # 1 # rest)
                         (concat (map (\<lambda>i.
                            take (prod_list rest)
                              (drop (((if s0 = 1 then 0 else i) * s1
                                       + js ! (if length sel = 1 then 0 else i)) * prod_list rest)
                                 (nd_data arr)))
                            [0..<rows])))))
         | _ \<Rightarrow> Inl ValueError))"

text \<open>
  \<^verbatim>\<open>argmax\<close> and \<^verbatim>\<open>argmin\<close> of a one-dimensional array: the first index of the largest
  (smallest) entry, \<^verbatim>\<open>ValueError\<close> on an empty array.
\<close>

fun argmax_from :: "nat \<Rightarrow> real \<Rightarrow> nat \<Rightarrow> real list \<Rightarrow> nat" where
  "argmax_from best_i best_v i [] = best_i"
| "argmax_from best_i best_v i (x # xs) =
     (if best_v < x then argmax_from i x (Suc i) xs else argmax_from best_i best_v (Suc i) xs)"

definition np_argmax :: "real list \<Rightarrow> py_error + int" where
  "np_argmax xs =
     (case xs of [] \<Rightarrow> Inl ValueError | x # rest \<Rightarrow> Inr (int (argmax_from 0 x 1 rest)))"

definition np_argmin :: "real list \<Rightarrow> py_error + int" where
  "np_argmin xs = np_argmax (map uminus xs)"

section \<open>ArucoList\<close>

text \<open>
  \<^verbatim>\<open>
  class ArucoList:
      # self.corners.shape = (n, 1, 4, 2)
      # self.ids.shape = (n, 1)
      # self.rejected.shape = (n_rejected, 1, 4, 2)
      # self.aruco_sizes.shape = (n,)
      # self.rvecs.shape = (n, n_poses, 3)
      # self.tvecs.shape = (n, n_poses, 3)
      # self.reprojection_errors = (n, n_poses)
  \<close>
  A field that can be \<^verbatim>\<open>None\<close> is an option. The field \<^verbatim>\<open>n\<close> is called \<open>n_markers\<close>
  here. The three counts are the values \<^verbatim>\<open>detect_aruco\<close> assigns, which are never
  negative.
\<close>

record ArucoList =
  n_markers :: nat
  corners :: "real ndarray option"
  ids :: "int ndarray option"
  n_rejected :: nat
  rejected :: "real ndarray option"
  aruco_sizes :: "real ndarray option"
  n_poses :: nat
  rvecs :: "real ndarray option"
  tvecs :: "real ndarray option"
  reprojection_errors :: "real ndarray option"

section \<open>PoseSelectors\<close>

text \<open>
  A selector takes one marker's \<^verbatim>\<open>rvec\<close> of shape \<open>(n_poses, 3)\<close>, \<^verbatim>\<open>tvec\<close> of shape
  \<open>(n_poses, 3)\<close> and \<^verbatim>\<open>reprojection_error\<close> of shape \<open>(n_poses,)\<close> and returns an index.
\<close>

type_synonym selector = "real ndarray \<Rightarrow> real ndarray \<Rightarrow> real ndarray \<Rightarrow> py_error + int"

text \<open>
  The argument of \<^verbatim>\<open>cv2.Rodrigues\<close> in this program is a rotation vector, an array
  of three entries; OpenCV rejects an array of another size (but for nine entries, a
  matrix, which no rotation set of this program holds).
\<close>

definition vec3_of :: "py_error \<Rightarrow> real ndarray \<Rightarrow> py_error + vec3" where
  "vec3_of err a = (case nd_data a of [x, y, z] \<Rightarrow> Inr (x, y, z) | _ \<Rightarrow> Inl err)"

definition as_vec3 :: "real ndarray \<Rightarrow> py_error + vec3" where
  "as_vec3 a = vec3_of CvError a"

fun second :: "vec3 \<Rightarrow> real" where
  "second (x, y, z) = y"

text \<open>
  \<^verbatim>\<open>
  def _select_by_rotation_matrix(rvec, get_rotation_matrix_score):
      scores = list()
      n_poses = rvec.shape[0]
      for i in range(n_poses):
          R, _ = cv2.Rodrigues(rvec[i])
          score = get_rotation_matrix_score(R)
          scores.append(score)
      scores = np.array(scores)
      selected = scores.argmax()
      return selected

  def Z_axis_up(rvec, tvec, reprojection_error):
      def get_rotation_matrix_score(R):
          score = -R[:, 2][1]  # minus Y component of aruco Z axis
          return score
      selected = PoseSelectors._select_by_rotation_matrix(
          rvec, get_rotation_matrix_score)
      return selected
  \<close>
\<close>

definition rotation_score :: "(mat3 \<Rightarrow> real) \<Rightarrow> real ndarray \<Rightarrow> nat \<Rightarrow> py_error + real" where
  "rotation_score get_rotation_matrix_score rvec i =
     (case nd_index rvec i of
        Inl e \<Rightarrow> Inl e
      | Inr r \<Rightarrow>
          (case as_vec3 r of
             Inl e \<Rightarrow> Inl e
           | Inr v \<Rightarrow> Inr (get_rotation_matrix_score (Rodrigues v))))"

definition select_by_rotation_matrix :: "real ndarray \<Rightarrow> (mat3 \<Rightarrow> real) \<Rightarrow> py_error + int" where
  "select_by_rotation_matrix rvec get_rotation_matrix_score =
     (case nd_shape rvec of
        [] \<Rightarrow> Inl IndexError
      | np # rest \<Rightarrow>
          (case collect (map (rotation_score get_rotation_matrix_score rvec) [0..<np]) of
             Inl e \<Rightarrow> Inl e
           | Inr scores \<Rightarrow> np_argmax scores))"

definition Z_axis_up :: selector where
  "Z_axis_up rvec tvec reprojection_error =
     select_by_rotation_matrix rvec (\<lambda>R. - second (mat_col R 2))"

text \<open>
  \<^verbatim>\<open>
  def best(rvec, tvec, reprojection_error):
      selected = np.argmin(reprojection_error)
      return selected

  def worst(rvec, tvec, reprojection_error):
      selected = np.argmax(reprojection_error)
      return selected
  \<close>
\<close>

definition best :: selector where
  "best rvec tvec reprojection_error = np_argmin (nd_data reprojection_error)"

definition worst :: selector where
  "worst rvec tvec reprojection_error = np_argmax (nd_data reprojection_error)"

section \<open>select_aruco_poses\<close>

text \<open>\<^verbatim>\<open>a[i]\<close> on a field that may be \<^verbatim>\<open>None\<close>: \<^verbatim>\<open>None\<close> is not subscriptable.\<close>

definition py_index :: "'a ndarray option \<Rightarrow> nat \<Rightarrow> py_error + 'a ndarray" where
  "py_index a i = (case a of None \<Rightarrow> Inl TypeError | Some arr \<Rightarrow> nd_index arr i)"

text \<open>
  One round of the loop, \<^verbatim>\<open>selector(rvecs[i], tvecs[i], reprojection_errors[i])\<close>: the
  arguments are evaluated from left to right.
\<close>

definition select_one ::
  "selector \<Rightarrow> real ndarray option \<Rightarrow> real ndarray option \<Rightarrow> real ndarray option \<Rightarrow> nat
     \<Rightarrow> py_error + int" where
  "select_one sel rv tv re i =
     (case py_index rv i of
        Inl e \<Rightarrow> Inl e
      | Inr r \<Rightarrow>
          (case py_index tv i of
             Inl e \<Rightarrow> Inl e
           | Inr t \<Rightarrow>
               (case py_index re i of
                  Inl e \<Rightarrow> Inl e
                | Inr er \<Rightarrow> sel r t er)))"

definition py_take_along_axis1 ::
  "'a ndarray option \<Rightarrow> int list \<Rightarrow> nat \<Rightarrow> py_error + 'a ndarray" where
  "py_take_along_axis1 a sel ndim =
     (case a of None \<Rightarrow> Inl TypeError | Some arr \<Rightarrow> take_along_axis1 arr sel ndim)"

text \<open>
  \<^verbatim>\<open>
  def select_aruco_poses(arucos: ArucoList, selector):
      n = arucos.n
      if n == 0:
          arucos_selected = deepcopy(arucos)
          arucos_selected.n_poses = 1
          arucos_selected.rvecs = np.empty((0, 1, 3))
          arucos_selected.tvecs = np.empty((0, 1, 3))
          arucos_selected.reprojection_errors = np.empty((0, 1, 3))
          return arucos_selected

      rvecs = arucos.rvecs
      tvecs = arucos.tvecs
      reprojection_errors = arucos.reprojection_errors
      selected = list()
      for i in range(n):
          s = selector(rvecs[i], tvecs[i], reprojection_errors[i])
          selected.append(s)

      selected = np.array(selected).reshape(n, 1, 1)
      arucos_selected = deepcopy(arucos)
      arucos_selected.n_poses = 1
      arucos_selected.rvecs = np.take_along_axis(rvecs, selected, axis=1)
      arucos_selected.tvecs = np.take_along_axis(tvecs, selected, axis=1)
      arucos_selected.reprojection_errors = \
          np.take_along_axis(reprojection_errors, selected.reshape(n, 1), axis=1)
      return arucos_selected
  \<close>
\<close>

definition select_aruco_poses :: "ArucoList \<Rightarrow> selector \<Rightarrow> py_error + ArucoList" where
  "select_aruco_poses arucos sel =
     (if n_markers arucos = 0
      then Inr (arucos\<lparr>n_poses := 1,
                  rvecs := Some (np_empty [0, 1, 3]),
                  tvecs := Some (np_empty [0, 1, 3]),
                  reprojection_errors := Some (np_empty [0, 1, 3])\<rparr>)
      else
        (case collect (map (select_one sel (rvecs arucos) (tvecs arucos)
                              (reprojection_errors arucos)) [0..<n_markers arucos]) of
           Inl e \<Rightarrow> Inl e
         | Inr selected \<Rightarrow>
             (case py_take_along_axis1 (rvecs arucos) selected 3 of
                Inl e \<Rightarrow> Inl e
              | Inr rv \<Rightarrow>
                  (case py_take_along_axis1 (tvecs arucos) selected 3 of
                     Inl e \<Rightarrow> Inl e
                   | Inr tv \<Rightarrow>
                       (case py_take_along_axis1 (reprojection_errors arucos) selected 2 of
                          Inl e \<Rightarrow> Inl e
                        | Inr re \<Rightarrow>
                            Inr (arucos\<lparr>n_poses := 1,
                                   rvecs := Some rv,
                                   tvecs := Some tv,
                                   reprojection_errors := Some re\<rparr>))))))"

section \<open>get_aruco_corners_3d\<close>

text \<open>The (sx, sy) pairs of the loop, and the homogeneous corner built for each.\<close>

definition corner_signs :: "(real \<times> real) list" where
  "corner_signs = [(- 1, 1), (1, 1), (1, - 1), (- 1, - 1)]"

definition corners_3d_in_single_marker_frame :: "real \<Rightarrow> real list list" where
  "corners_3d_in_single_marker_frame aruco_size =
     map (\<lambda>(sx, sy). [aruco_size / 2 * sx, aruco_size / 2 * sy, 0, 1]) corner_signs"

text \<open>\<^verbatim>\<open>aruco_sizes[i]\<close> is used as a number.\<close>

definition size_at :: "real ndarray \<Rightarrow> nat \<Rightarrow> py_error + real" where
  "size_at sz i =
     (case nd_index sz i of
        Inl e \<Rightarrow> Inl e
      | Inr a \<Rightarrow> (case nd_data a of [s] \<Rightarrow> Inr s | _ \<Rightarrow> Inl ValueError))"

definition marker_corners :: "real ndarray \<Rightarrow> nat \<Rightarrow> py_error + real list list" where
  "marker_corners sz i =
     (case size_at sz i of
        Inl e \<Rightarrow> Inl e
      | Inr s \<Rightarrow> Inr (corners_3d_in_single_marker_frame s))"

text \<open>
  \<^verbatim>\<open>marker_poses[i, j]\<close>: the identity of \<^verbatim>\<open>np.eye(4)\<close> with the rotation block set
  to \<^verbatim>\<open>cv2.Rodrigues(rvecs[i, j])\<close> and the last column to \<^verbatim>\<open>tvecs[i, j]\<close>.
\<close>

definition marker_pose ::
  "real ndarray \<Rightarrow> real ndarray \<Rightarrow> nat \<Rightarrow> nat \<Rightarrow> py_error + real list list" where
  "marker_pose rv tv i j =
     (case nd_index2 rv i j of
        Inl e \<Rightarrow> Inl e
      | Inr r \<Rightarrow>
          (case vec3_of CvError r of
             Inl e \<Rightarrow> Inl e
           | Inr rvec \<Rightarrow>
               (case nd_index2 tv i j of
                  Inl e \<Rightarrow> Inl e
                | Inr t \<Rightarrow>
                    (case vec3_of ValueError t of
                       Inl e \<Rightarrow> Inl e
                     | Inr tvec \<Rightarrow> Inr (transform4 (Rodrigues rvec) tvec)))))"

text \<open>The product of a matrix given by its rows with a vector.\<close>

definition matvec :: "real list list \<Rightarrow> real list \<Rightarrow> real list" where
  "matvec M v = map (\<lambda>row. sum_list (map2 (*) row v)) M"

text \<open>
  \<^verbatim>\<open>
  def get_aruco_corners_3d(arucos: ArucoList):
      if any(getattr(arucos, attr) is None for attr in ('aruco_sizes', 'rvecs', 'tvecs')):
          return None
      n = arucos.n
      aruco_sizes = arucos.aruco_sizes
      n_poses = arucos.n_poses
      rvecs = arucos.rvecs
      tvecs = arucos.tvecs
      if n != 0:
          marker_poses = np.tile(np.eye(4), (n, n_poses, 1, 1))
          for i in range(n):
              for j in range(n_poses):
                  marker_poses[i, j, 0:3, 0:3], _ = cv2.Rodrigues(rvecs[i, j])
                  marker_poses[i, j, 0:3, 3] = tvecs[i, j]
          corners_3d_in_marker_frames = list()
          for i in range(n):
              corners_3d_in_single_marker_frame = list()
              aruco_size = aruco_sizes[i]
              for sx, sy in [(-1, 1), (1, 1), (1, -1), (-1, -1)]:
                  single_corner_3d_in_marker_frame = np.array([
                      aruco_size / 2 * sx,
                      aruco_size / 2 * sy,
                      0, 1]).reshape(4, 1)
                  corners_3d_in_single_marker_frame.append(single_corner_3d_in_marker_frame)
              corners_3d_in_single_marker_frame = np.array(corners_3d_in_single_marker_frame)
              corners_3d_in_marker_frames.append(corners_3d_in_single_marker_frame)
          corners_3d_in_marker_frames = np.array(corners_3d_in_marker_frames)
          corners_3d_in_marker_frames = \
              np.expand_dims(corners_3d_in_marker_frames.swapaxes(0, 1), axis=2)
          corners_3d = np.matmul(marker_poses, corners_3d_in_marker_frames)
          corners_3d = corners_3d[:, :, :, 0:3, 0].transpose(1, 2, 0, 3)
      else:
          corners_3d = np.empty((0, n_poses, 4, 3))
      return corners_3d
  \<close>
  The matrices have the shape \<open>(n, n_poses, 4, 4)\<close> and the corners, after the swap and
  the new axis, \<open>(4, n, 1, 4, 1)\<close>: the broadcast product has at \<open>[k, i, j]\<close> the matrix
  \<open>[i, j]\<close> times the corner \<open>k\<close> of marker \<open>i\<close>. The slice keeps its first three
  entries and the transposition puts them at \<open>[i, j, k]\<close>.
\<close>

definition get_aruco_corners_3d :: "ArucoList \<Rightarrow> py_error + real ndarray option" where
  "get_aruco_corners_3d arucos =
     (case aruco_sizes arucos of
        None \<Rightarrow> Inr None
      | Some sz \<Rightarrow>
     (case rvecs arucos of
        None \<Rightarrow> Inr None
      | Some rv \<Rightarrow>
     (case tvecs arucos of
        None \<Rightarrow> Inr None
      | Some tv \<Rightarrow>
          (let n = n_markers arucos; np = n_poses arucos in
           if n \<noteq> 0 then
             (case collect (map (\<lambda>i. collect (map (marker_pose rv tv i) [0..<np])) [0..<n]) of
                Inl e \<Rightarrow> Inl e
              | Inr marker_poses \<Rightarrow>
                  (case collect (map (marker_corners sz) [0..<n]) of
                     Inl e \<Rightarrow> Inl e
                   | Inr frames \<Rightarrow>
                       Inr (Some (NDArray [n, np, 4, 3]
                         (concat (map (\<lambda>i.
                            concat (map (\<lambda>j.
                              concat (map (\<lambda>k.
                                take 3 (matvec (marker_poses ! i ! j) (frames ! i ! k)))
                                [0..<4]))
                              [0..<np]))
                            [0..<n]))))))
           else Inr (Some (np_empty [0, np, 4, 3]))))))"

section \<open>detect_aruco\<close>

text \<open>
  The detector and the two pose solvers of OpenCV are outside the program: the markers
  the detector returns are an argument (each with its identifier and its corners, a
  block of shape \<open>(1, 4, 2)\<close> given by its 8 entries), and so are the rejected candidates
  and the two solvers; a solver returns \<open>None\<close> when OpenCV raises its error, which
  \<^verbatim>\<open>detect_aruco\<close> lets through. The calibration \<open>K\<close>, \<open>D\<close> is only handed on to the
  solvers.

  The argument \<^verbatim>\<open>aruco_sizes\<close> is a number, a list or tuple (given as the array
  \<^verbatim>\<open>np.array\<close> makes of it), or an array.
\<close>

type_synonym quad = "real list"

datatype sizes_arg = SizeScalar real | SizeSequence "real ndarray" | SizeArray "real ndarray"

type_synonym ('k, 'd) solve_pnp =
  "vec3 list \<Rightarrow> quad \<Rightarrow> 'k \<Rightarrow> 'd \<Rightarrow> (vec3 \<times> vec3) option"

type_synonym ('k, 'd) solve_pnp_generic =
  "vec3 list \<Rightarrow> quad \<Rightarrow> 'k \<Rightarrow> 'd \<Rightarrow> (vec3 \<times> vec3 \<times> real) list option"

fun vec3_list :: "vec3 \<Rightarrow> real list" where
  "vec3_list (x, y, z) = [x, y, z]"

text \<open>
  \<^verbatim>\<open>
  obj = np.array([
      [-aruco_size / 2,  aruco_size / 2, 0],
      [ aruco_size / 2,  aruco_size / 2, 0],
      [ aruco_size / 2, -aruco_size / 2, 0],
      [-aruco_size / 2, -aruco_size / 2, 0]])
  \<close>
\<close>

definition obj_points :: "real \<Rightarrow> vec3 list" where
  "obj_points aruco_size =
     [(- aruco_size / 2, aruco_size / 2, 0),
      (aruco_size / 2, aruco_size / 2, 0),
      (aruco_size / 2, - aruco_size / 2, 0),
      (- aruco_size / 2, - aruco_size / 2, 0)]"

text \<open>
  The body of the loop over the markers: the candidate poses of one marker, each with its
  reprojection error. The single solve has no error estimate and stores -1; the generic
  solve must return \<open>n_poses\<close> solutions.
\<close>

definition estimate_marker ::
  "('k, 'd) solve_pnp \<Rightarrow> ('k, 'd) solve_pnp_generic \<Rightarrow> bool \<Rightarrow> nat \<Rightarrow> 'k \<Rightarrow> 'd \<Rightarrow> real \<Rightarrow> quad
     \<Rightarrow> py_error + (vec3 \<times> vec3 \<times> real) list" where
  "estimate_marker solve solve_generic use_generic np K D aruco_size corner =
     (let obj = obj_points aruco_size in
      if \<not> use_generic then
        (case solve obj corner K D of
           None \<Rightarrow> Inl CvError
         | Some (rvec, tvec) \<Rightarrow> Inr [(rvec, tvec, - 1)])
      else
        (case solve_generic obj corner K D of
           None \<Rightarrow> Inl CvError
         | Some sols \<Rightarrow> if length sols \<noteq> np then Inl AssertionError else Inr sols))"

text \<open>
  \<^verbatim>\<open>
  def detect_aruco(image, K=None, D=None, aruco_sizes=None, use_generic=False, ...):
      corners, ids, rejected = \
          cv2.aruco.detectMarkers(image, aruco_dict, parameters=params)
      n = len(corners)
      n_rejected = len(rejected)
      if not use_generic:
          n_poses = 1
      else:
          n_poses = 2
      if n != 0:
          corners = np.array(corners)
          ids = np.array(ids)
          ind = np.argsort(ids, axis=0)
          ids = np.take_along_axis(ids, ind, axis=0)
          corners = np.take_along_axis(corners, np.expand_dims(ind, axis=(-1, -2)), axis=0)
          # estimate 3d poses
          if all(item is not None for item in (K, D, aruco_sizes)):
              if isinstance(aruco_sizes, (list, tuple)):
                  aruco_sizes = np.array(aruco_sizes)
              elif not isinstance(aruco_sizes, np.ndarray):
                  aruco_sizes = np.array([aruco_sizes] * n)
              if len(aruco_sizes.shape) != 1:
                  raise RuntimeError(f"Use list, tuple or np.ndarray to pass multiple aruco sizes.")
              if aruco_sizes.shape != (n,):
                  raise RuntimeError(
                      f"Number of aruco marker sizes does not correspond to "
                      f"the number of detected markers ({aruco_sizes.shape[0]} vs {n})")
              rvecs = list(); tvecs = list(); reprojection_errors = list()
              for i in range(n):
                  aruco_size = aruco_sizes[i]
                  obj = ...
                  if not use_generic:
                      retval, rvec, tvec = cv2.solvePnP(obj, corners[i], K, D, ...)
                      reprojection_error = np.array([-1])  # undefined
                  else:
                      retval, rvec, tvec, reprojection_error = cv2.solvePnPGeneric(...)
                      assert len(rvec) == n_poses
                  rvecs.append(rvec); tvecs.append(tvec)
                  reprojection_errors.append(reprojection_error)
              rvecs = np.array(rvecs)
              tvecs = np.array(tvecs)
              reprojection_errors = np.array(reprojection_errors)
          else:
              n_poses = 0
              aruco_sizes = None
              rvecs = None
              tvecs = None
              reprojection_errors = None
      else:
          corners = np.empty((0, 1, 4, 2))
          ids = np.empty((0, 1))
          aruco_sizes = np.empty((0,))
          rvecs = np.empty((0, n_poses, 3))
          tvecs = np.empty((0, n_poses, 3))
          reprojection_errors = np.empty((0, n_poses))
      if n_rejected != 0:
          rejected = np.array(rejected)
      else:
          rejected = np.empty((0, 1, 4, 2))
      arucos = ArucoList()
      arucos.n = n
      ...
      return arucos
  \<close>
  The markers are sorted by identifier, the corners with them (\<open>sort_key\<close> keeps the
  order of markers with equal identifiers, which numpy leaves open).
\<close>

definition detect_aruco ::
  "(int \<times> quad) list \<Rightarrow> quad list \<Rightarrow> 'k option \<Rightarrow> 'd option \<Rightarrow> sizes_arg option \<Rightarrow> bool
     \<Rightarrow> ('k, 'd) solve_pnp \<Rightarrow> ('k, 'd) solve_pnp_generic \<Rightarrow> py_error + ArucoList" where
  "detect_aruco detected rejected_quads K D sizes use_generic solve solve_generic =
     (let n = length detected;
          nr = length rejected_quads;
          np = (if \<not> use_generic then 1 else 2);
          rej = (if nr \<noteq> 0 then NDArray [nr, 1, 4, 2] (concat rejected_quads)
                 else np_empty [0, 1, 4, 2])
      in
      if n \<noteq> 0 then
        (let sorted = sort_key fst detected;
             ids_arr = NDArray [n, 1] (map fst sorted);
             corners_arr = NDArray [n, 1, 4, 2] (concat (map snd sorted))
         in
         if K \<noteq> None \<and> D \<noteq> None \<and> sizes \<noteq> None then
           (let sizes_arr =
                  (case the sizes of
                     SizeSequence a \<Rightarrow> a
                   | SizeArray a \<Rightarrow> a
                   | SizeScalar s \<Rightarrow> NDArray [n] (replicate n s))
            in
            if length (nd_shape sizes_arr) \<noteq> 1 then Inl RuntimeError_sizes_not_1d
            else if nd_shape sizes_arr \<noteq> [n] then Inl RuntimeError_sizes_count
            else
              (case collect (map (\<lambda>i.
                        estimate_marker solve solve_generic use_generic np (the K) (the D)
                          (nd_data sizes_arr ! i) (snd (sorted ! i)))
                      [0..<n]) of
                 Inl e \<Rightarrow> Inl e
               | Inr poses \<Rightarrow>
                   Inr \<lparr>n_markers = n,
                        corners = Some corners_arr,
                        ids = Some ids_arr,
                        n_rejected = nr,
                        rejected = Some rej,
                        aruco_sizes = Some sizes_arr,
                        n_poses = np,
                        rvecs = Some (NDArray [n, np, 3]
                          (concat (map (\<lambda>m. concat (map (\<lambda>(r, t, e). vec3_list r) m)) poses))),
                        tvecs = Some (NDArray [n, np, 3]
                          (concat (map (\<lambda>m. concat (map (\<lambda>(r, t, e). vec3_list t) m)) poses))),
                        reprojection_errors = Some (NDArray [n, np]
                          (concat (map (map (\<lambda>(r, t, e). e)) poses)))\<rparr>))
         else
           Inr \<lparr>n_markers = n,
                corners = Some corners_arr,
                ids = Some ids_arr,
                n_rejected = nr,
                rejected = Some rej,
                aruco_sizes = None,
                n_poses = 0,
                rvecs = None,
                tvecs = None,
                reprojection_errors = None\<rparr>)
      else
        Inr \<lparr>n_markers = n,
             corners = Some (np_empty [0, 1, 4, 2]),
             ids = Some (np_empty [0, 1]),
             n_rejected = nr,
             rejected = Some rej,
             aruco_sizes = Some (np_empty [0]),
             n_poses = np,
             rvecs = Some (np_empty [0, np, 3]),
             tvecs = Some (np_empty [0, np, 3]),
             reprojection_errors = Some (np_empty [0, np])\<rparr>)"

section \<open>estimate_plane in float64 arithmetic: overflow and NaN\<close>

text \<open>
  The definitions above read the floats as real numbers. A float64 computation differs
  from them by rounding, and by its special values: a result too large in magnitude is an
  infinity, and an undefined one (\<open>inf - inf\<close>, \<open>0 * inf\<close>, \<open>inf / inf\<close>, \<open>0 / 0\<close>) is NaN,
  which every later operation hands on and every comparison answers with False. This
  section models the start of \<^verbatim>\<open>estimate_plane\<close>, up to its assertion, with these special
  values. A finite result is kept exact: rounding, underflow and the sign of zero are
  not modelled. A result whose magnitude reaches \<open>2^1024 - 2^970\<close>, half a unit in the
  last place above the largest float64, overflows, as rounding to nearest does.
\<close>

datatype fp = Fin real | PInf | NInf | NaN

definition overflow_threshold :: real where
  "overflow_threshold = 2 ^ 1024 - 2 ^ 970"

definition fp_of :: "real \<Rightarrow> fp" where
  "fp_of r =
     (if overflow_threshold \<le> r then PInf
      else if r \<le> - overflow_threshold then NInf
      else Fin r)"

text \<open>
  The arithmetic of IEEE 754 on these values. Dividing a non-zero finite number by zero
  gives an infinity (zero is taken as \<open>+0\<close>), numpy warns and goes on.
\<close>

fun fp_neg :: "fp \<Rightarrow> fp" where
  "fp_neg (Fin a) = Fin (- a)"
| "fp_neg PInf = NInf"
| "fp_neg NInf = PInf"
| "fp_neg NaN = NaN"

fun fp_add :: "fp \<Rightarrow> fp \<Rightarrow> fp" where
  "fp_add (Fin a) (Fin b) = fp_of (a + b)"
| "fp_add (Fin a) PInf = PInf"
| "fp_add (Fin a) NInf = NInf"
| "fp_add PInf (Fin b) = PInf"
| "fp_add PInf PInf = PInf"
| "fp_add PInf NInf = NaN"
| "fp_add NInf (Fin b) = NInf"
| "fp_add NInf PInf = NaN"
| "fp_add NInf NInf = NInf"
| "fp_add NaN y = NaN"
| "fp_add x NaN = NaN"

definition fp_sub :: "fp \<Rightarrow> fp \<Rightarrow> fp" where
  "fp_sub x y = fp_add x (fp_neg y)"

fun fp_mul :: "fp \<Rightarrow> fp \<Rightarrow> fp" where
  "fp_mul (Fin a) (Fin b) = fp_of (a * b)"
| "fp_mul (Fin a) PInf = (if a = 0 then NaN else if 0 < a then PInf else NInf)"
| "fp_mul (Fin a) NInf = (if a = 0 then NaN else if 0 < a then NInf else PInf)"
| "fp_mul PInf (Fin b) = (if b = 0 then NaN else if 0 < b then PInf else NInf)"
| "fp_mul NInf (Fin b) = (if b = 0 then NaN else if 0 < b then NInf else PInf)"
| "fp_mul PInf PInf = PInf"
| "fp_mul PInf NInf = NInf"
| "fp_mul NInf PInf = NInf"
| "fp_mul NInf NInf = PInf"
| "fp_mul NaN y = NaN"
| "fp_mul x NaN = NaN"

fun fp_div :: "fp \<Rightarrow> fp \<Rightarrow> fp" where
  "fp_div (Fin a) (Fin b) =
     (if b = 0 then (if a = 0 then NaN else if 0 < a then PInf else NInf) else fp_of (a / b))"
| "fp_div (Fin a) PInf = Fin 0"
| "fp_div (Fin a) NInf = Fin 0"
| "fp_div PInf (Fin b) = (if 0 \<le> b then PInf else NInf)"
| "fp_div NInf (Fin b) = (if 0 \<le> b then NInf else PInf)"
| "fp_div PInf PInf = NaN"
| "fp_div PInf NInf = NaN"
| "fp_div NInf PInf = NaN"
| "fp_div NInf NInf = NaN"
| "fp_div NaN y = NaN"
| "fp_div x NaN = NaN"

fun fp_sqrt :: "fp \<Rightarrow> fp" where
  "fp_sqrt (Fin a) = (if a < 0 then NaN else Fin (sqrt a))"
| "fp_sqrt PInf = PInf"
| "fp_sqrt NInf = NaN"
| "fp_sqrt NaN = NaN"

fun fp_abs :: "fp \<Rightarrow> fp" where
  "fp_abs (Fin a) = Fin \<bar>a\<bar>"
| "fp_abs PInf = PInf"
| "fp_abs NInf = PInf"
| "fp_abs NaN = NaN"

text \<open>
  Comparisons: any comparison with NaN is False.
\<close>

fun fp_less :: "fp \<Rightarrow> fp \<Rightarrow> bool" where
  "fp_less (Fin a) (Fin b) = (a < b)"
| "fp_less (Fin a) PInf = True"
| "fp_less NInf (Fin b) = True"
| "fp_less NInf PInf = True"
| "fp_less x y = False"

fun fp_le :: "fp \<Rightarrow> fp \<Rightarrow> bool" where
  "fp_le (Fin a) (Fin b) = (a \<le> b)"
| "fp_le (Fin a) PInf = True"
| "fp_le NInf (Fin b) = True"
| "fp_le NInf PInf = True"
| "fp_le PInf PInf = True"
| "fp_le NInf NInf = True"
| "fp_le x y = False"

text \<open>
  \<^verbatim>\<open>np.dot\<close> and the entries of \<^verbatim>\<open>np.matmul\<close>, summed from the left (the order in which
  BLAS adds is its own), and \<^verbatim>\<open>np.linalg.norm\<close> of a vector, \<open>sqrt(dot(x, x))\<close>.
\<close>

definition fp_dot :: "fp list \<Rightarrow> fp list \<Rightarrow> fp" where
  "fp_dot xs ys = foldl fp_add (Fin 0) (map2 fp_mul xs ys)"

definition fp_norm :: "fp list \<Rightarrow> fp" where
  "fp_norm xs = fp_sqrt (fp_dot xs xs)"

text \<open>
  \<^verbatim>\<open>np.linalg.inv\<close> calls LAPACK's \<^verbatim>\<open>gesv\<close> with the identity as right-hand side: an LU
  factorisation with row pivoting, then a forward and a backward substitution.
  \<^verbatim>\<open>idamax\<close> finds the pivot of a column, the first entry of largest absolute value
  (an entry replaces the maximum when it is greater, which a NaN never is).
\<close>

fun idamax_from :: "nat \<Rightarrow> fp \<Rightarrow> nat \<Rightarrow> fp list \<Rightarrow> nat" where
  "idamax_from best_i dmax i [] = best_i"
| "idamax_from best_i dmax i (x # xs) =
     (if fp_less dmax (fp_abs x) then idamax_from i (fp_abs x) (Suc i) xs
      else idamax_from best_i dmax (Suc i) xs)"

definition idamax :: "fp list \<Rightarrow> nat" where
  "idamax xs = (case xs of [] \<Rightarrow> 0 | x # rest \<Rightarrow> idamax_from 0 (fp_abs x) 1 rest)"

text \<open>
  One step of the factorisation, on the rows of the matrix extended by the rows of the
  right-hand side: rows \<open>k\<close> and the pivot row are swapped; a pivot that is exactly zero
  makes the matrix singular; otherwise each later row gets its multiplier (the entry
  times the reciprocal of the pivot, or the entry divided by the pivot when the pivot is
  below the safe minimum \<open>2^-1022\<close>) and has the multiple of the pivot row subtracted in
  the columns after \<open>k\<close>. Applying the step to the right-hand side as well is the forward
  substitution.
\<close>

definition sfmin :: real where
  "sfmin = 1 / 2 ^ 1022"

definition lu_multiplier :: "fp \<Rightarrow> fp \<Rightarrow> fp" where
  "lu_multiplier pivot x =
     (if fp_le (Fin sfmin) (fp_abs pivot) then fp_mul x (fp_div (Fin 1) pivot)
      else fp_div x pivot)"

definition lu_eliminate :: "nat \<Rightarrow> fp \<Rightarrow> fp list \<Rightarrow> fp list \<Rightarrow> fp list" where
  "lu_eliminate k pivot rk ri =
     (let l = lu_multiplier pivot (ri ! k) in
      map (\<lambda>j. if k < j then fp_sub (ri ! j) (fp_mul l (rk ! j)) else ri ! j) [0..<length ri])"

definition lu_step :: "nat \<Rightarrow> fp list list \<Rightarrow> fp list list option" where
  "lu_step k M =
     (let p = k + idamax (map (\<lambda>r. r ! k) (drop k M));
          M1 = M[k := M ! p, p := M ! k];
          pivot = M1 ! k ! k
      in if pivot = Fin 0 then None
         else Some (map (\<lambda>i. if k < i then lu_eliminate k pivot (M1 ! k) (M1 ! i) else M1 ! i)
                      [0..<length M1]))"

text \<open>
  The backward substitution for the column \<open>c\<close> of the right-hand side:
  \<open>x2 = b2 / u22\<close>, then \<open>b1\<close> and \<open>b0\<close> lose their multiples of \<open>x2\<close>, and so on upwards.
\<close>

definition back_substitute :: "fp list list \<Rightarrow> nat \<Rightarrow> fp list" where
  "back_substitute U c =
     (let x2 = fp_div (U ! 2 ! c) (U ! 2 ! 2);
          y1 = fp_sub (U ! 1 ! c) (fp_mul x2 (U ! 1 ! 2));
          y0 = fp_sub (U ! 0 ! c) (fp_mul x2 (U ! 0 ! 2));
          x1 = fp_div y1 (U ! 1 ! 1);
          z0 = fp_sub y0 (fp_mul x1 (U ! 0 ! 1));
          x0 = fp_div z0 (U ! 0 ! 0)
      in [x0, x1, x2])"

text \<open>
  \<^verbatim>\<open>np.linalg.inv\<close> of a 3x3 matrix given by its rows. It raises \<^verbatim>\<open>LinAlgError\<close> only
  when a pivot is exactly zero; on a matrix with infinite entries the pivots are infinite
  or NaN, and it returns a matrix of NaN.
\<close>

definition inv_fp :: "fp list list \<Rightarrow> py_error + fp list list" where
  "inv_fp M =
     (let aug = [M ! 0 @ [Fin 1, Fin 0, Fin 0],
                 M ! 1 @ [Fin 0, Fin 1, Fin 0],
                 M ! 2 @ [Fin 0, Fin 0, Fin 1]]
      in case lu_step 0 aug of
           None \<Rightarrow> Inl LinAlgError
         | Some M1 \<Rightarrow>
             (case lu_step 1 M1 of
                None \<Rightarrow> Inl LinAlgError
              | Some M2 \<Rightarrow>
                  (case lu_step 2 M2 of
                     None \<Rightarrow> Inl LinAlgError
                   | Some U \<Rightarrow>
                       (let x = back_substitute U 3;
                            y = back_substitute U 4;
                            z = back_substitute U 5
                        in Inr [[x ! 0, y ! 0, z ! 0],
                                [x ! 1, y ! 1, z ! 1],
                                [x ! 2, y ! 2, z ! 2]]))))"

text \<open>
  The point cloud is the list of its rows, each of three entries.
  \<^verbatim>\<open>
  A = np.hstack((points[:, 0:2], np.ones((n, 1))))
  B = points[:, 2]
  plane = np.matmul(np.matmul(np.linalg.inv(np.matmul(A.T, A)), A.T), B)
  \<close>
\<close>

definition fit_plane_fp :: "fp list list \<Rightarrow> py_error + fp list" where
  "fit_plane_fp points =
     (let A = map (\<lambda>p. take 2 p @ [Fin 1]) points;
          B = map (\<lambda>p. p ! 2) points;
          At = map (\<lambda>j. map (\<lambda>r. r ! j) A) [0..<3];
          AtA = map (\<lambda>r. map (\<lambda>c. fp_dot r c) At) At
      in case inv_fp AtA of
           Inl e \<Rightarrow> Inl e
         | Inr Mi \<Rightarrow>
             Inr (map (\<lambda>r. fp_dot r B) (map (\<lambda>r. map (\<lambda>a. fp_dot r a) A) Mi)))"

text \<open>
  \<^verbatim>\<open>project_to_plane\<close> with the same operations in the same order.
\<close>

definition project_to_plane_fp :: "fp list \<Rightarrow> fp list \<Rightarrow> fp list" where
  "project_to_plane_fp p0 plane =
     (let x0 = p0 ! 0; y0 = p0 ! 1; z0 = p0 ! 2;
          a = plane ! 0; b = plane ! 1; c = plane ! 2;
          dz = fp_div (fp_sub (fp_add (fp_add (fp_mul a x0) (fp_mul b y0)) c) z0)
                 (fp_add (fp_add (fp_mul a a) (fp_mul b b)) (Fin 1));
          x = fp_sub x0 (fp_mul a dz);
          y = fp_sub y0 (fp_mul b dz);
          z = fp_add z0 dz
      in [x, y, z])"

text \<open>
  \<^verbatim>\<open>estimate_plane\<close> from its first line to the assertion:
  \<^verbatim>\<open>
  centroid = np.sum(points, axis=0) / n
  origin = project_to_plane(centroid, plane)
  a = plane[0]; b = plane[1]; c = plane[2]
  src = np.array([0., 0., 1.])
  tgt = np.array([-a, -b, 1])
  tgt /= np.linalg.norm(tgt)
  avr = src + tgt
  assert np.linalg.norm(avr) > 0.01
  \<close>
  The result is the error raised, or the plane, the origin and \<open>avr\<close> with which the
  function goes on.
\<close>

definition estimate_plane_fp_assert :: "fp list list \<Rightarrow> py_error + fp list \<times> fp list \<times> fp list" where
  "estimate_plane_fp_assert points =
     (case fit_plane_fp points of
        Inl e \<Rightarrow> Inl e
      | Inr plane \<Rightarrow>
          (let n = length points;
               centroid = map (\<lambda>j. fp_div (foldl fp_add (Fin 0) (map (\<lambda>p. p ! j) points))
                                  (Fin (real n))) [0..<3];
               origin = project_to_plane_fp centroid plane;
               a = plane ! 0; b = plane ! 1;
               tgt = [fp_neg a, fp_neg b, Fin 1];
               tgt1 = map (\<lambda>x. fp_div x (fp_norm tgt)) tgt;
               avr = map2 fp_add [Fin 0, Fin 0, Fin 1] tgt1
           in if \<not> fp_less (Fin (1 / 100)) (fp_norm avr) then Inl AssertionError
              else Inr (plane, origin, avr)))"

text \<open>
  A point cloud of float64 values whose squares overflow.
\<close>

definition overflow_points :: "fp list list" where
  "overflow_points =
     [[Fin (2 ^ 512), Fin 0, Fin 0],
      [Fin 0, Fin (2 ^ 512), Fin 0],
      [Fin 0, Fin 0, Fin 0],
      [Fin (2 ^ 512), Fin (2 ^ 512), Fin 1]]"

section \<open>Notions the properties are stated with\<close>

text \<open>The array \<^verbatim>\<open>np.array\<close> makes of a list of 3-vectors, of shape \<open>(len, 3)\<close>.\<close>

definition vec3_array :: "vec3 list \<Rightarrow> real ndarray" where
  "vec3_array vs = NDArray [length vs, 3] (concat (map vec3_list vs))"

text \<open>The entry \<open>M[i][j]\<close> of a 3x3 matrix.\<close>

fun vec_at :: "vec3 \<Rightarrow> nat \<Rightarrow> real" where
  "vec_at (x, y, z) j = (if j = 0 then x else if j = 1 then y else z)"

fun mat_row :: "mat3 \<Rightarrow> nat \<Rightarrow> vec3" where
  "mat_row (r0, r1, r2) i = (if i = 0 then r0 else if i = 1 then r1 else r2)"

definition mat_entry :: "mat3 \<Rightarrow> nat \<Rightarrow> nat \<Rightarrow> real" where
  "mat_entry M i j = vec_at (mat_row M i) j"

text \<open>
  The pose arrays of a result are present and have the shapes the class documents:
  \<open>(n, n_poses, 3)\<close> for \<^verbatim>\<open>rvecs\<close> and \<^verbatim>\<open>tvecs\<close>, \<open>(n, n_poses)\<close> for
  \<^verbatim>\<open>reprojection_errors\<close>.
\<close>

definition pose_arrays :: "ArucoList \<Rightarrow> real ndarray \<Rightarrow> real ndarray \<Rightarrow> real ndarray \<Rightarrow> bool" where
  "pose_arrays arucos rv tv re =
     (rvecs arucos = Some rv \<and> nd_shape rv = [n_markers arucos, n_poses arucos, 3] \<and> nd_ok rv
      \<and> tvecs arucos = Some tv \<and> nd_shape tv = [n_markers arucos, n_poses arucos, 3] \<and> nd_ok tv
      \<and> reprojection_errors arucos = Some re
      \<and> nd_shape re = [n_markers arucos, n_poses arucos] \<and> nd_ok re)"

text \<open>
  A result for the examples: one marker of side 2 with two candidate poses, the second
  one with the smaller reprojection error.
\<close>

definition example_arucos :: ArucoList where
  "example_arucos =
     \<lparr>n_markers = 1,
      corners = Some (NDArray [1, 1, 4, 2] [0, 0, 1, 0, 1, 1, 0, 1]),
      ids = Some (NDArray [1, 1] [7]),
      n_rejected = 0,
      rejected = Some (np_empty [0, 1, 4, 2]),
      aruco_sizes = Some (NDArray [1] [2]),
      n_poses = 2,
      rvecs = Some (NDArray [1, 2, 3] [0, 0, 0, pi / 2, 0, 0]),
      tvecs = Some (NDArray [1, 2, 3] [0, 0, 1, 0, 0, 2]),
      reprojection_errors = Some (NDArray [1, 2] [1 / 2, 1 / 4])\<rparr>"

text \<open>Solvers for the examples: two that fail, and one that returns a fixed pose.\<close>

definition no_solver :: "(unit, unit) solve_pnp" where
  "no_solver obj corner K D = None"

definition no_generic_solver :: "(unit, unit) solve_pnp_generic" where
  "no_generic_solver obj corner K D = None"

definition fixed_solver :: "(unit, unit) solve_pnp" where
  "fixed_solver obj corner K D = Some ((0, 0, 0), (0, 0, 1))"

text \<open>The two errors \<^verbatim>\<open>detect_aruco\<close> raises on the sizes.\<close>

definition validation_error :: "py_error + ArucoList \<Rightarrow> bool" where
  "validation_error r = (r = Inl RuntimeError_sizes_not_1d \<or> r = Inl RuntimeError_sizes_count)"

text \<open>\<^verbatim>\<open>a[i, j, k]\<close>.\<close>

definition nd_index3 :: "'a ndarray \<Rightarrow> nat \<Rightarrow> nat \<Rightarrow> nat \<Rightarrow> py_error + 'a ndarray" where
  "nd_index3 a i j k = (case nd_index2 a i j of Inl e \<Rightarrow> Inl e | Inr r \<Rightarrow> nd_index r k)"

text \<open>
  The sizes and the poses of a result are present and have the documented shapes:
  \<open>(n,)\<close> for \<^verbatim>\<open>aruco_sizes\<close>, \<open>(n, n_poses, 3)\<close> for \<^verbatim>\<open>rvecs\<close> and \<^verbatim>\<open>tvecs\<close>.
\<close>

definition sizes_and_poses :: "ArucoList \<Rightarrow> real ndarray \<Rightarrow> real ndarray \<Rightarrow> real ndarray \<Rightarrow> bool" where
  "sizes_and_poses arucos sz rv tv =
     (aruco_sizes arucos = Some sz \<and> nd_shape sz = [n_markers arucos] \<and> nd_ok sz
      \<and> rvecs arucos = Some rv \<and> nd_shape rv = [n_markers arucos, n_poses arucos, 3] \<and> nd_ok rv
      \<and> tvecs arucos = Some tv \<and> nd_shape tv = [n_markers arucos, n_poses arucos, 3] \<and> nd_ok tv)"

text \<open>Two rotation candidates for the examples.\<close>

definition up_candidates :: "vec3 list" where
  "up_candidates = [(- (pi / 2), 0, 0), (pi / 2, 0, 0)]"

section \<open>Properties of project_to_plane\<close>

lemma plane_denominator_pos: "0 < a * a + b * b + (1::real)"
proof -
  have "0 \<le> a * a" and "0 \<le> b * b" by simp_all
  then show ?thesis by linarith
qed

text \<open>
  Claim C9. For every point \<open>(x0, y0, z0)\<close> and all plane coefficients \<open>(a, b, c)\<close>,
  \<open>project_to_plane\<close> returns the point \<open>(x0 - a*dz, y0 - b*dz, z0 + dz)\<close> with
  \<open>dz = (a*x0 + b*y0 + c - z0) / (a^2 + b^2 + 1)\<close>; the returned point lies on the plane
  \<open>a*x + b*y + c = z\<close>, and its displacement from the input point is \<open>dz\<close> times the plane
  normal \<open>(-a, -b, 1)\<close>.
\<close>

theorem project_to_plane_correct:
  "project_to_plane (x0, y0, z0) (a, b, c) =
     (x0 - a * ((a * x0 + b * y0 + c - z0) / (a\<^sup>2 + b\<^sup>2 + 1)),
      y0 - b * ((a * x0 + b * y0 + c - z0) / (a\<^sup>2 + b\<^sup>2 + 1)),
      z0 + (a * x0 + b * y0 + c - z0) / (a\<^sup>2 + b\<^sup>2 + 1))
   \<and> (case project_to_plane (x0, y0, z0) (a, b, c) of (x, y, z) \<Rightarrow> a * x + b * y + c = z)
   \<and> vsub (project_to_plane (x0, y0, z0) (a, b, c)) (x0, y0, z0) =
       vscale ((a * x0 + b * y0 + c - z0) / (a\<^sup>2 + b\<^sup>2 + 1)) (- a, - b, 1)"
proof -
  define D where "D = a * a + b * b + 1"
  define q where "q = (a * x0 + b * y0 + c - z0) / D"
  have "D \<noteq> 0"
    using plane_denominator_pos [of a b] by (simp add: D_def)
  then have "q * D = a * x0 + b * y0 + c - z0"
    by (simp add: q_def)
  then have "q * (a * a + b * b + 1) = a * x0 + b * y0 + c - z0"
    by (simp add: D_def)
  then have "a * (x0 - a * q) + b * (y0 - b * q) + c = z0 + q"
    by (simp add: algebra_simps)
  then show ?thesis
    by (simp add: Let_def power2_eq_square q_def D_def)
qed

section \<open>Properties of estimate_plane\<close>

lemma norm3_sq: "(norm3 (x, y, z))\<^sup>2 = x * x + y * y + z * z"
proof -
  have "0 \<le> x * x + y * y + z * z"
    by (simp add: add_nonneg_nonneg)
  then show ?thesis by simp
qed

lemma norm3_nonneg: "0 \<le> norm3 v"
  by (cases v) simp


lemma normal_norm_ge1: "1 \<le> norm3 (- a, - b, 1)"
proof -
  have "1 \<le> a * a + b * b + 1" by simp
  then have "sqrt 1 \<le> sqrt (a * a + b * b + 1)"
    using real_sqrt_le_iff by blast
  then show ?thesis by simp
qed

lemma normal_target_eq:
  "normal_target (a, b, c) =
     (- a / norm3 (- a, - b, 1), - b / norm3 (- a, - b, 1), 1 / norm3 (- a, - b, 1))"
  by (simp add: normal_target_def)

lemma normal_avr_norm_sq:
  "(norm3 (normal_avr (a, b, c)))\<^sup>2 = 2 + 2 / norm3 (- a, - b, 1)"
proof -
  define N where "N = norm3 (- a, - b, 1)"
  have N1: "1 \<le> N" unfolding N_def by (rule normal_norm_ge1)
  have N2: "N * N = a * a + b * b + 1"
    using norm3_sq [of "- a" "- b" 1] by (simp add: N_def power2_eq_square)
  have "normal_avr (a, b, c) = (- a / N, - b / N, 1 + 1 / N)"
    by (simp add: normal_avr_def normal_target_def N_def)
  then have "(norm3 (normal_avr (a, b, c)))\<^sup>2 =
      (- a / N) * (- a / N) + (- b / N) * (- b / N) + (1 + 1 / N) * (1 + 1 / N)"
    by (simp only: norm3_sq)
  also have "\<dots> = (a * a + b * b + 1) / (N * N) + 1 + 2 / N"
    using N1 by (simp add: field_simps)
  also have "\<dots> = 2 + 2 / N"
    using N1 N2 plane_denominator_pos [of a b] by simp
  finally show ?thesis by (simp add: N_def)
qed

lemma normal_avr_norm_gt1: "1 < norm3 (normal_avr (a, b, c))"
proof -
  define t where "t = 2 / norm3 (- a, - b, 1)"
  have "0 < norm3 (- a, - b, 1)"
    using normal_norm_ge1 [of a b] by linarith
  then have "0 < t"
    unfolding t_def by (rule divide_pos_pos [OF zero_less_numeral])
  then have "1 < 2 + t" by linarith
  moreover have "(norm3 (normal_avr (a, b, c)))\<^sup>2 = 2 + t"
    unfolding t_def by (rule normal_avr_norm_sq)
  ultimately have "1\<^sup>2 < (norm3 (normal_avr (a, b, c)))\<^sup>2"
    by (simp only: one_power2)
  then show ?thesis
    using norm3_nonneg [of "normal_avr (a, b, c)"] power2_less_imp_less by blast
qed

lemma norm3_vscale: "norm3 (vscale k v) = \<bar>k\<bar> * norm3 v"
proof (cases v)
  case (fields x y z)
  have "k * x * (k * x) + k * y * (k * y) + k * z * (k * z) = (k * k) * (x * x + y * y + z * z)"
    by (simp add: algebra_simps)
  then show ?thesis
    using fields by (simp add: real_sqrt_mult)
qed

lemma norm3_vdiv_self: "norm3 v \<noteq> 0 \<Longrightarrow> norm3 (vdiv v (norm3 v)) = 1"
proof (cases v)
  case (fields x y z)
  assume nz: "norm3 v \<noteq> 0"
  define n where "n = norm3 v"
  have npos: "0 < n"
    using nz norm3_nonneg [of v] by (simp add: n_def)
  have "vdiv v n = vscale (1 / n) v"
    using fields by simp
  then have "norm3 (vdiv v n) = \<bar>1 / n\<bar> * n"
    by (simp only: norm3_vscale n_def)
  then show ?thesis
    using npos by (simp add: n_def)
qed

lemma pi_not_tiny: "\<not> pi < DBL_EPSILON"
proof -
  have "DBL_EPSILON \<le> 1" by (simp add: DBL_EPSILON_def)
  then show ?thesis using pi_ge_two by linarith
qed

lemma Rodrigues_pi:
  assumes "norm3 (ux, uy, uz) = 1"
  shows "Rodrigues (vscale pi (ux, uy, uz)) =
     ((2 * ux * ux - 1, 2 * ux * uy, 2 * ux * uz),
      (2 * ux * uy, 2 * uy * uy - 1, 2 * uy * uz),
      (2 * ux * uz, 2 * uy * uz, 2 * uz * uz - 1))"
proof -
  have th: "norm3 (pi * ux, pi * uy, pi * uz) = pi"
    using norm3_vscale [of pi "(ux, uy, uz)"] assms by (simp del: norm3.simps)
  have "Rodrigues (pi * ux, pi * uy, pi * uz) =
     ((2 * ux * ux - 1, 2 * ux * uy, 2 * ux * uz),
      (2 * ux * uy, 2 * uy * uy - 1, 2 * uy * uz),
      (2 * ux * uz, 2 * uy * uz, 2 * uz * uz - 1))"
    unfolding Rodrigues.simps th using pi_not_tiny by (simp add: Let_def)
  then show ?thesis by simp
qed

lemma det_half_turn:
  assumes "norm3 (ux, uy, uz) = 1"
  shows "det3 ((2 * ux * ux - 1, 2 * ux * uy, 2 * ux * uz),
      (2 * ux * uy, 2 * uy * uy - 1, 2 * uy * uz),
      (2 * ux * uz, 2 * uy * uz, 2 * uz * uz - 1)) = 1"
proof -
  have u: "ux * ux + uy * uy + uz * uz = 1"
    using norm3_sq [of ux uy uz] assms by simp
  have "det3 ((2 * ux * ux - 1, 2 * ux * uy, 2 * ux * uz),
      (2 * ux * uy, 2 * uy * uy - 1, 2 * uy * uz),
      (2 * ux * uz, 2 * uy * uz, 2 * uz * uz - 1)) = 2 * (ux * ux + uy * uy + uz * uz) - 1"
    by (simp add: algebra_simps)
  then show ?thesis using u by simp
qed








lemma inv3_error: "inv3 M = Inl e \<Longrightarrow> e = LinAlgError"
proof -
  obtain a b c d e' f g h i where "M = ((a, b, c), (d, e', f), (g, h, i))"
    by (metis prod_cases3)
  then show "inv3 M = Inl e \<Longrightarrow> e = LinAlgError"
    by (auto simp: Let_def split: if_splits)
qed

lemma fit_plane_error: "fit_plane points = Inl e \<Longrightarrow> e = LinAlgError"
  by (auto simp: fit_plane_def split: sum.splits dest: inv3_error)


lemma inv3_half_turn:
  assumes "norm3 (ux, uy, uz) = 1"
  shows "\<exists>Ri. inv3 (Rodrigues (vscale pi (ux, uy, uz))) = Inr Ri"
  unfolding Rodrigues_pi [OF assms] inv3.simps det_half_turn [OF assms]
  by (simp add: Let_def)

lemma avr_unit: "norm3 (vdiv (normal_avr plane) (norm3 (normal_avr plane))) = 1"
proof -
  obtain a b c where p: "plane = (a, b, c)" by (metis prod_cases3)
  have "norm3 (normal_avr plane) \<noteq> 0"
    using normal_avr_norm_gt1 [of a b c] by (simp only: p)
  then show ?thesis by (rule norm3_vdiv_self)
qed

lemma inv3_R1:
  "\<exists>Ri. inv3 (Rodrigues (vscale pi (vdiv (normal_avr plane) (norm3 (normal_avr plane))))) = Inr Ri"
proof -
  obtain ux uy uz where u: "vdiv (normal_avr plane) (norm3 (normal_avr plane)) = (ux, uy, uz)"
    by (metis prod_cases3)
  then have "norm3 (ux, uy, uz) = 1"
    using avr_unit [of plane] by (simp only:)
  then show ?thesis
    unfolding u by (rule inv3_half_turn)
qed

text \<open>
  Claim C10, as amended. In exact arithmetic, for all plane coefficients \<open>(a, b, c)\<close> the
  normalised target normal \<open>(-a, -b, 1) / norm (-a, -b, 1)\<close> has a strictly positive third
  component, the norm of \<open>(0, 0, 1)\<close> plus that target is strictly greater than 1, and
  \<open>estimate_plane\<close> never ends in the assertion on that norm, whatever the point cloud.
\<close>

theorem assert_unreachable:
  "0 < third (normal_target (a, b, c))
   \<and> 1 < norm3 (vadd (0, 0, 1) (normal_target (a, b, c)))
   \<and> estimate_plane points \<noteq> Inl AssertionError"
proof -
  have "0 < norm3 (- a, - b, 1)"
    using normal_norm_ge1 [of a b] by linarith
  then have c1: "0 < third (normal_target (a, b, c))"
    by (simp only: normal_target_eq third.simps zero_less_divide_1_iff)
  have c2: "1 < norm3 (vadd (0, 0, 1) (normal_target (a, b, c)))"
    using normal_avr_norm_gt1 [of a b c] by (simp only: normal_avr_def)
  have c3: "estimate_plane points \<noteq> Inl AssertionError"
  proof (cases "fit_plane points")
    case (Inl e)
    then show ?thesis
      using fit_plane_error [OF Inl] by (simp add: estimate_plane_def)
  next
    case (Inr plane)
    obtain a' b' c' where p: "plane = (a', b', c')" by (metis prod_cases3)
    have gt: "norm3 (normal_avr plane) > 1 / 100"
      using normal_avr_norm_gt1 [of a' b' c'] by (simp only: p)
    obtain Ri where Ri: "inv3 (Rodrigues (vscale pi (vdiv (normal_avr plane) (norm3 (normal_avr plane))))) = Inr Ri"
      using inv3_R1 by blast
    show ?thesis
      unfolding estimate_plane_def Inr
      using gt Ri by (simp add: Let_def split: list.splits del: norm3.simps Rodrigues.simps inv3.simps)
  qed
  from c1 c2 c3 show ?thesis by blast
qed

lemma upt_0_3: "[0..<3] = [0, 1, 2]"
  by (simp add: numeral_3_eq_3 upt_rec)

lemma overflow_AtA:
  "map (\<lambda>r. map (\<lambda>c. fp_dot r c)
          (map (\<lambda>j. map (\<lambda>r. r ! j) (map (\<lambda>p. take 2 p @ [Fin 1]) overflow_points)) [0..<3]))
     (map (\<lambda>j. map (\<lambda>r. r ! j) (map (\<lambda>p. take 2 p @ [Fin 1]) overflow_points)) [0..<3])
   = [[PInf, PInf, Fin (2 ^ 513)], [PInf, PInf, Fin (2 ^ 513)], [Fin (2 ^ 513), Fin (2 ^ 513), Fin 4]]"
  by (simp add: upt_0_3 overflow_points_def fp_dot_def fp_of_def overflow_threshold_def)

lemma overflow_inv:
  "inv_fp [[PInf, PInf, Fin (2 ^ 513)], [PInf, PInf, Fin (2 ^ 513)],
           [Fin (2 ^ 513), Fin (2 ^ 513), Fin 4]]
   = Inr [[NaN, NaN, NaN], [NaN, NaN, NaN], [NaN, NaN, NaN]]"
  by (simp add: inv_fp_def lu_step_def lu_eliminate_def lu_multiplier_def idamax_def
      back_substitute_def fp_sub_def fp_of_def overflow_threshold_def sfmin_def Let_def upt_0_3)

lemma overflow_fit: "fit_plane_fp overflow_points = Inr [NaN, NaN, NaN]"
  unfolding fit_plane_fp_def Let_def overflow_AtA overflow_inv
  by (simp add: overflow_points_def fp_dot_def upt_0_3)

text \<open>
  Claim C10 as stated fails in float64 arithmetic. On the cloud \<open>overflow_points\<close> the
  entries \<open>2^1024\<close> of \<^verbatim>\<open>A.T @ A\<close> overflow to infinity, \<^verbatim>\<open>np.linalg.inv\<close> meets no zero
  pivot and returns NaN without raising, the fitted coefficients are NaN, so is the norm
  of \<open>avr\<close>, and the assertion \<^verbatim>\<open>norm(avr) > 0.01\<close> fails.
\<close>

theorem assert_reached_on_overflow:
  "fit_plane_fp overflow_points = Inr [NaN, NaN, NaN]
   \<and> estimate_plane_fp_assert overflow_points = Inl AssertionError"
  by (simp add: estimate_plane_fp_assert_def overflow_fit fp_norm_def fp_dot_def Let_def upt_0_3)



lemma fit_square: "fit_plane square_points = Inr (0, 0, 0)"
  by (simp add: fit_plane_def square_points_def Let_def)

lemma centroid_square: "centroid square_points = (0, 0, 0)"
  by (simp add: centroid_def square_points_def)


lemma half_pi_not_tiny: "\<not> pi / 2 < DBL_EPSILON"
proof -
  have "DBL_EPSILON \<le> 1" by (simp add: DBL_EPSILON_def)
  then show ?thesis using pi_ge_two by linarith
qed

lemma R1_square: "Rodrigues (0, 0, pi) = ((- 1, 0, 0), (0, - 1, 0), (0, 0, 1))"
  using pi_not_tiny by (simp add: Let_def)

lemma norm3_z: "norm3 (0, 0, t) = \<bar>t\<bar>"
  by simp

lemma R2_square: "Rodrigues (0, 0, pi / 2) = ((0, - 1, 0), (1, 0, 0), (0, 0, 1))"
proof -
  have th: "norm3 (0, 0, pi / 2) = pi / 2"
    by (simp only: norm3_z) simp
  show ?thesis
    unfolding Rodrigues.simps th using half_pi_not_tiny by (simp add: Let_def)
qed

lemma estimate_square:
  "estimate_plane square_points = Inr [[0, 1, 0, 0], [- 1, 0, 0, 0], [0, 0, 1, 0], [0, 0, 0, 1]]"
  unfolding estimate_plane_def fit_square
  apply (simp add: centroid_square Let_def normal_avr_def normal_target_def
      del: Rodrigues.simps)
  apply (simp add: R1_square square_points_def Let_def atan2_def R2_square del: Rodrigues.simps)
  done

text \<open>
  Claim C3, on the square: the plane is \<open>z = 0\<close>, the frame origin is the centroid
  \<open>(0, 0, 0)\<close>, and the first point \<open>(0, 1, 0)\<close> is its own projection, so the direction
  from the origin to it is \<open>(0, 1, 0)\<close>. The rotation returned maps the canonical X axis
  (the first column of the rotation block) to \<open>(0, -1, 0)\<close>, the opposite direction:
  \<open>sine\<close> is a norm, so \<open>theta\<close> is never negative, whatever the sign of the cross
  product's Z component.
\<close>

theorem frame_x_axis_mirrored:
  "estimate_plane square_points =
     Inr [[0, 1, 0, 0], [- 1, 0, 0, 0], [0, 0, 1, 0], [0, 0, 0, 1]]
   \<and> rotation_col [[0, 1, 0, 0], [- 1, 0, 0, 0], [0, 0, 1, 0], [0, 0, 0, 1]] 0 = (0, - 1, 0)
   \<and> fit_plane square_points = Inr (0, 0, 0)
   \<and> first_point_direction square_points (0, 0, 0) = (0, 1, 0)"
proof -
  have "first_point_direction square_points (0, 0, 0) = (0, 1, 0)"
    by (simp add: first_point_direction_def centroid_square) (simp add: square_points_def)
  then show ?thesis
    by (simp add: estimate_square fit_square rotation_col_def)
qed

section \<open>Properties of the arrays and of Z_axis_up\<close>

lemma argmax_from_spec:
  assumes "bi < i" and "length pre = i" and "pre ! bi = bv"
    and "\<forall>j<i. pre ! j \<le> bv" and "\<forall>j<bi. pre ! j < bv"
  shows "argmax_from bi bv i xs < length (pre @ xs)
     \<and> (\<forall>j<length (pre @ xs). (pre @ xs) ! j \<le> (pre @ xs) ! argmax_from bi bv i xs)
     \<and> (\<forall>j<argmax_from bi bv i xs. (pre @ xs) ! j < (pre @ xs) ! argmax_from bi bv i xs)"
  using assms
proof (induction xs arbitrary: bi bv i pre)
  case Nil
  then show ?case by auto
next
  case (Cons x xs)
  have app: "pre @ x # xs = (pre @ [x]) @ xs" by simp
  show ?case
  proof (cases "bv < x")
    case True
    have "i < Suc i" by simp
    moreover have "length (pre @ [x]) = Suc i" using Cons.prems by simp
    moreover have "(pre @ [x]) ! i = x" using Cons.prems by (simp add: nth_append)
    moreover have "\<forall>j<Suc i. (pre @ [x]) ! j \<le> x"
      using Cons.prems True by (auto simp: nth_append less_Suc_eq intro: order.trans less_imp_le)
    moreover have "\<forall>j<i. (pre @ [x]) ! j < x"
      using Cons.prems True by (auto simp: nth_append intro: le_less_trans)
    ultimately show ?thesis
      using Cons.IH [of i "Suc i" "pre @ [x]" x] True unfolding app by simp
  next
    case False
    have "bi < Suc i" using Cons.prems by simp
    moreover have "length (pre @ [x]) = Suc i" using Cons.prems by simp
    moreover have "(pre @ [x]) ! bi = bv" using Cons.prems by (simp add: nth_append)
    moreover have "\<forall>j<Suc i. (pre @ [x]) ! j \<le> bv"
      using Cons.prems False by (auto simp: nth_append less_Suc_eq)
    moreover have "\<forall>j<bi. (pre @ [x]) ! j < bv"
      using Cons.prems by (auto simp: nth_append)
    ultimately show ?thesis
      using Cons.IH [of bi "Suc i" "pre @ [x]" bv] False unfolding app by simp
  qed
qed

lemma np_argmax_spec:
  assumes "xs \<noteq> []"
  shows "\<exists>k. np_argmax xs = Inr (int k) \<and> k < length xs
     \<and> (\<forall>j<length xs. xs ! j \<le> xs ! k) \<and> (\<forall>j<k. xs ! j < xs ! k)"
proof -
  obtain x rest where xs: "xs = x # rest" using assms by (cases xs) auto
  have "argmax_from 0 x 1 rest < length ([x] @ rest)
     \<and> (\<forall>j<length ([x] @ rest). ([x] @ rest) ! j \<le> ([x] @ rest) ! argmax_from 0 x 1 rest)
     \<and> (\<forall>j<argmax_from 0 x 1 rest. ([x] @ rest) ! j < ([x] @ rest) ! argmax_from 0 x 1 rest)"
    by (rule argmax_from_spec) auto
  then show ?thesis
    unfolding xs np_argmax_def by (intro exI [of _ "argmax_from 0 x 1 rest"]) simp
qed

lemma concat_block:
  "\<forall>x\<in>set xs. length x = k \<Longrightarrow> i < length xs \<Longrightarrow> take k (drop (i * k) (concat xs)) = xs ! i"
proof (induction xs arbitrary: i)
  case Nil
  then show ?case by simp
next
  case (Cons x xs)
  show ?case
  proof (cases i)
    case 0
    then show ?thesis using Cons.prems by simp
  next
    case (Suc m)
    have lx: "length x = k" using Cons.prems by simp
    have "drop (k + m * k) (x @ concat xs) = drop (m * k) (concat xs)"
      using lx by (simp add: drop_append)
    then show ?thesis
      using Cons.IH [of m] Cons.prems Suc by simp
  qed
qed

lemma collect_map_Inr:
  "(\<And>x. x \<in> set xs \<Longrightarrow> f x = Inr (g x)) \<Longrightarrow> collect (map f xs) = Inr (map g xs)"
  by (induction xs) auto

lemma nd_index_vec3_array:
  "i < length vs \<Longrightarrow> nd_index (vec3_array vs) i = Inr (NDArray [3] (vec3_list (vs ! i)))"
proof -
  assume i: "i < length vs"
  have "\<forall>x\<in>set (map vec3_list vs). length x = 3" by auto
  then have "take 3 (drop (i * 3) (concat (map vec3_list vs))) = map vec3_list vs ! i"
    using i by (intro concat_block) auto
  then show ?thesis
    using i by (simp add: nd_index_def vec3_array_def)
qed

lemma second_col2: "second (mat_col R 2) = mat_entry R 1 2"
proof -
  obtain a b c d e f g h i where "R = ((a, b, c), (d, e, f), (g, h, i))"
    by (metis prod_cases3)
  then show ?thesis by (simp add: mat_entry_def)
qed

lemma rotation_score_vec3_array:
  "i < length vs \<Longrightarrow> rotation_score f (vec3_array vs) i = Inr (f (Rodrigues (vs ! i)))"
  by (cases "vs ! i") (simp add: rotation_score_def nd_index_vec3_array as_vec3_def vec3_of_def)

lemma Z_axis_up_vec3_array:
  "Z_axis_up (vec3_array vs) tvec err = np_argmax (map (\<lambda>v. - mat_entry (Rodrigues v) 1 2) vs)"
proof -
  have "collect (map (rotation_score (\<lambda>R. - second (mat_col R 2)) (vec3_array vs)) [0..<length vs])
      = Inr (map (\<lambda>i. - mat_entry (Rodrigues (vs ! i)) 1 2) [0..<length vs])"
    by (rule collect_map_Inr) (simp add: rotation_score_vec3_array second_col2)
  moreover have "map (\<lambda>i. - mat_entry (Rodrigues (vs ! i)) 1 2) [0..<length vs]
      = map (\<lambda>v. - mat_entry (Rodrigues v) 1 2) vs"
    by (rule nth_equalityI) simp_all
  ultimately show ?thesis
    by (simp add: Z_axis_up_def select_by_rotation_matrix_def vec3_array_def [of vs, THEN arg_cong, of nd_shape])
qed

text \<open>
  Claim C7. On a rotation set with at least one candidate, \<open>Z_axis_up\<close> returns an index
  \<open>k\<close> of the set at which the score, minus the entry at row 1 and column 2 of the
  candidate's rotation matrix, is maximal, and every earlier candidate has a strictly
  smaller score: ties go to the first maximal index. Of two candidates, one whose entry
  is negative (marker Z axis toward -Y) and one whose entry is positive (toward +Y), it
  picks the first kind, in either order.
\<close>

theorem Z_axis_up_first_maximum:
  "(vs \<noteq> [] \<longrightarrow>
      (\<exists>k. Z_axis_up (vec3_array vs) tvec err = Inr (int k) \<and> k < length vs
         \<and> (\<forall>j<length vs. - mat_entry (Rodrigues (vs ! j)) 1 2 \<le> - mat_entry (Rodrigues (vs ! k)) 1 2)
         \<and> (\<forall>j<k. - mat_entry (Rodrigues (vs ! j)) 1 2 < - mat_entry (Rodrigues (vs ! k)) 1 2)))
   \<and> (mat_entry (Rodrigues va) 1 2 < 0 \<and> 0 < mat_entry (Rodrigues vb) 1 2 \<longrightarrow>
        Z_axis_up (vec3_array [va, vb]) tvec err = Inr 0
      \<and> Z_axis_up (vec3_array [vb, va]) tvec err = Inr 1)"
proof (intro conjI impI)
  assume ne: "vs \<noteq> []"
  let ?sc = "map (\<lambda>v. - mat_entry (Rodrigues v) 1 2) vs"
  have "?sc \<noteq> []" using ne by simp
  then obtain k where k: "np_argmax ?sc = Inr (int k)" "k < length ?sc"
      "\<forall>j<length ?sc. ?sc ! j \<le> ?sc ! k" "\<forall>j<k. ?sc ! j < ?sc ! k"
    using np_argmax_spec [of ?sc] by blast
  show "\<exists>k. Z_axis_up (vec3_array vs) tvec err = Inr (int k) \<and> k < length vs
         \<and> (\<forall>j<length vs. - mat_entry (Rodrigues (vs ! j)) 1 2 \<le> - mat_entry (Rodrigues (vs ! k)) 1 2)
         \<and> (\<forall>j<k. - mat_entry (Rodrigues (vs ! j)) 1 2 < - mat_entry (Rodrigues (vs ! k)) 1 2)"
  proof (intro exI [of _ k] conjI allI impI)
    show "Z_axis_up (vec3_array vs) tvec err = Inr (int k)"
      using k(1) by (simp only: Z_axis_up_vec3_array)
    show "k < length vs" using k(2) by simp
    fix j
    { assume "j < length vs"
      then show "- mat_entry (Rodrigues (vs ! j)) 1 2 \<le> - mat_entry (Rodrigues (vs ! k)) 1 2"
        using k(2) k(3) by (auto dest!: spec [of _ j]) }
    { assume "j < k"
      then show "- mat_entry (Rodrigues (vs ! j)) 1 2 < - mat_entry (Rodrigues (vs ! k)) 1 2"
        using k(2) k(4) by (auto dest!: spec [of _ j]) }
  qed
next
  assume "mat_entry (Rodrigues va) 1 2 < 0 \<and> 0 < mat_entry (Rodrigues vb) 1 2"
  then show "Z_axis_up (vec3_array [va, vb]) tvec err = Inr 0"
    by (simp add: Z_axis_up_vec3_array np_argmax_def)
next
  assume "mat_entry (Rodrigues va) 1 2 < 0 \<and> 0 < mat_entry (Rodrigues vb) 1 2"
  then show "Z_axis_up (vec3_array [vb, va]) tvec err = Inr 1"
    by (simp add: Z_axis_up_vec3_array np_argmax_def)
qed

lemma norm3_x: "norm3 (t, 0, 0) = \<bar>t\<bar>"
  by simp

lemma Rodrigues_quarter_x:
  "Rodrigues (pi / 2, 0, 0) = ((1, 0, 0), (0, 0, - 1), (0, 1, 0))"
proof -
  have th: "norm3 (pi / 2, 0, 0) = pi / 2"
    by (simp only: norm3_x) simp
  show ?thesis
    unfolding Rodrigues.simps th using half_pi_not_tiny by (simp add: Let_def)
qed

lemma Rodrigues_quarter_x_back:
  "Rodrigues (- (pi / 2), 0, 0) = ((1, 0, 0), (0, 0, 1), (0, - 1, 0))"
proof -
  have th: "norm3 (- (pi / 2), 0, 0) = pi / 2"
    by (simp only: norm3_x) simp
  show ?thesis
    unfolding Rodrigues.simps th using half_pi_not_tiny by (simp add: Let_def)
qed


text \<open>
  The theorem at the quarter turns about the X axis: the turn by \<open>pi / 2\<close> sends the
  marker's Z axis to -Y, the turn by \<open>- pi / 2\<close> to +Y.
\<close>

theorem Z_axis_up_first_maximum_witness:
  "up_candidates \<noteq> []
   \<and> mat_entry (Rodrigues (pi / 2, 0, 0)) 1 2 < 0
   \<and> 0 < mat_entry (Rodrigues (- (pi / 2), 0, 0)) 1 2
   \<and> Z_axis_up (vec3_array [(pi / 2, 0, 0), (- (pi / 2), 0, 0)]) (np_empty [0]) (np_empty [0]) = Inr 0
   \<and> Z_axis_up (vec3_array [(- (pi / 2), 0, 0), (pi / 2, 0, 0)]) (np_empty [0]) (np_empty [0]) = Inr 1
   \<and> (\<exists>k. Z_axis_up (vec3_array up_candidates) (np_empty [0]) (np_empty [0]) = Inr (int k)
         \<and> k < length up_candidates)"
proof -
  have h1: "up_candidates \<noteq> []" by (simp add: up_candidates_def)
  have h2: "mat_entry (Rodrigues (pi / 2, 0, 0)) 1 2 < 0"
    by (simp add: Rodrigues_quarter_x mat_entry_def del: Rodrigues.simps)
  have h3: "0 < mat_entry (Rodrigues (- (pi / 2), 0, 0)) 1 2"
    by (simp add: Rodrigues_quarter_x_back mat_entry_def del: Rodrigues.simps)
  show ?thesis
    using h1 h2 h3
      Z_axis_up_first_maximum [of up_candidates "np_empty [0]" "np_empty [0]"
        "(pi / 2, 0, 0)" "(- (pi / 2), 0, 0)"]
    by blast
qed

section \<open>Properties of select_aruco_poses\<close>

lemma wrap_index_less: "wrap_index p s = Inr j \<Longrightarrow> j < p"
  by (auto simp: wrap_index_def split: if_splits)

lemma collect_nth_Inr:
  assumes "\<And>i. i < length xs \<Longrightarrow> f (xs ! i) = Inr (g i)"
  shows "collect (map f xs) = Inr (map g [0..<length xs])"
proof -
  have "map f xs = map (\<lambda>i. f (xs ! i)) [0..<length xs]"
    by (rule nth_equalityI) simp_all
  moreover have "collect (map (\<lambda>i. f (xs ! i)) [0..<length xs]) = Inr (map g [0..<length xs])"
    by (rule collect_map_Inr) (simp add: assms)
  ultimately show ?thesis by simp
qed

lemma block_bound:
  assumes "i < n" and "j < p"
  shows "(i * p + j) * k + k \<le> n * p * (k::nat)"
proof -
  have "i * p + j + 1 \<le> i * p + p" using assms by simp
  also have "\<dots> = Suc i * p" by simp
  also have "\<dots> \<le> n * p" using assms by (intro mult_le_mono1) simp
  finally have "(i * p + j + 1) * k \<le> n * p * k" by (rule mult_le_mono1)
  then show ?thesis by (simp add: algebra_simps)
qed

lemma length_concat_blocks:
  "\<forall>x\<in>set xs. length x = k \<Longrightarrow> length (concat xs) = length xs * k"
  by (induction xs) simp_all

lemma take_drop_take_drop:
  "a + b \<le> c \<Longrightarrow> take a (drop b (take c (drop d xs))) = take a (drop (d + b) xs)"
  by (simp add: drop_take add.commute)

lemma nd_index2_block:
  assumes "nd_shape arr = n # p # rest" and "i < n" and "j < p"
  shows "nd_index2 arr i j =
     Inr (NDArray rest (take (prod_list rest) (drop ((i * p + j) * prod_list rest) (nd_data arr))))"
proof -
  define k where "k = prod_list rest"
  have "k + j * k \<le> p * k"
  proof -
    have "Suc j * k \<le> p * k" using assms(3) by (intro mult_le_mono1) simp
    then show ?thesis by simp
  qed
  then have "take k (drop (j * k) (take (p * k) (drop (i * (p * k)) (nd_data arr))))
      = take k (drop (i * (p * k) + j * k) (nd_data arr))"
    by (rule take_drop_take_drop)
  moreover have "i * (p * k) + j * k = (i * p + j) * k"
    by (simp add: algebra_simps)
  ultimately show ?thesis
    using assms by (simp add: nd_index2_def nd_index_def k_def)
qed

lemma take_along_axis1_spec:
  assumes shp: "nd_shape arr = n # p # rest" and ok: "nd_ok arr"
    and len: "length sel = n" and pos: "0 < n" and nd: "length (nd_shape arr) = ndim"
    and js: "\<And>i. i < n \<Longrightarrow> wrap_index p (sel ! i) = Inr (js i)"
  shows "\<exists>out. take_along_axis1 arr sel ndim = Inr out \<and> nd_shape out = n # 1 # rest
     \<and> nd_ok out
     \<and> (\<forall>i<n. nd_index2 out i 0 = nd_index2 arr i (js i))"
proof -
  define k where "k = prod_list rest"
  define blk where "blk = (\<lambda>i. take k (drop ((i * p + js i) * k) (nd_data arr)))"
  define out where "out = NDArray (n # 1 # rest) (concat (map blk [0..<n]))"
  have dlen: "length (nd_data arr) = n * p * k"
    using ok shp by (simp add: nd_ok_def k_def)
  have jlt: "js i < p" if "i < n" for i
    using js [OF that] by (rule wrap_index_less)
  have blen: "length (blk i) = k" if "i < n" for i
  proof -
    have "(i * p + js i) * k + k \<le> n * p * k"
      using that jlt [OF that] by (rule block_bound)
    then show ?thesis by (simp add: blk_def dlen)
  qed
  have col: "collect (map (wrap_index p) sel) = Inr (map js [0..<n])"
    using collect_nth_Inr [of sel "wrap_index p" js] js len by simp
  have same: "map (\<lambda>i. take k (drop (((if n = 1 then 0 else i) * p
        + map js [0..<n] ! (if length sel = 1 then 0 else i)) * k) (nd_data arr))) [0..<n]
      = map blk [0..<n]"
    by (rule map_cong) (auto simp: blk_def len)
  have "take_along_axis1 arr sel ndim = Inr (NDArray (n # 1 # rest)
      (concat (map (\<lambda>i. take k (drop (((if n = 1 then 0 else i) * p
        + map js [0..<n] ! (if length sel = 1 then 0 else i)) * k) (nd_data arr))) [0..<n])))"
    using nd col
    by (simp add: take_along_axis1_def shp broadcast_dim_def len k_def)
  then have res: "take_along_axis1 arr sel ndim = Inr out"
    by (simp only: same out_def)
  have all_k: "\<forall>x\<in>set (map blk [0..<n]). length x = k"
    using blen by auto
  have okout: "nd_ok out"
  proof -
    have "length (concat (map blk [0..<n])) = length (map blk [0..<n]) * k"
      using all_k by (rule length_concat_blocks)
    then have "length (concat (map blk [0..<n])) = n * k"
      by simp
    then show ?thesis by (simp add: nd_ok_def out_def k_def)
  qed
  have rows: "nd_index2 out i 0 = nd_index2 arr i (js i)" if "i < n" for i
  proof -
    have "take k (drop (i * k) (concat (map blk [0..<n]))) = map blk [0..<n] ! i"
      using all_k that by (intro concat_block) simp_all
    then have b: "take k (drop (i * k) (nd_data out)) = blk i"
      using that by (simp add: out_def)
    have "nd_index2 out i 0 = Inr (NDArray rest (take k (drop ((i * 1 + 0) * k) (nd_data out))))"
      unfolding k_def by (rule nd_index2_block [of out n 1 rest]) (simp_all add: out_def that)
    then have "nd_index2 out i 0 = Inr (NDArray rest (blk i))"
      using b by simp
    moreover have "nd_index2 arr i (js i) = Inr (NDArray rest (blk i))"
      unfolding blk_def k_def using shp that jlt [OF that] by (rule nd_index2_block)
    ultimately show ?thesis by simp
  qed
  show ?thesis
    using res okout rows by (intro exI [of _ out]) (simp add: out_def)
qed

lemma wrap_index_total:
  "- int p \<le> s \<Longrightarrow> s < int p \<Longrightarrow> \<exists>j. wrap_index p s = Inr j"
  by (auto simp: wrap_index_def)

text \<open>
  Claim C1, as amended. For a result with \<open>n \<ge> 1\<close> markers whose pose arrays are present
  with the documented shapes, and a selector that returns for each marker an index valid
  for \<open>n_poses\<close> candidates, \<open>select_aruco_poses\<close> returns the input result with only
  \<open>n_poses\<close> set to 1 and the three pose arrays replaced (so the count, the ids, the
  corners and the sizes are the input's); the new arrays have the shapes \<open>(n, 1, 3)\<close>,
  \<open>(n, 1, 3)\<close> and \<open>(n, 1)\<close>, and their entry \<open>[i, 0]\<close> is the input's entry \<open>[i, j]\<close> for
  the index \<open>j\<close> the selector chose for marker \<open>i\<close>.
\<close>

theorem select_aruco_poses_slices:
  assumes pos: "0 < n_markers arucos"
    and arr: "pose_arrays arucos rv tv re"
    and sel: "\<forall>i<n_markers arucos. \<exists>s. select_one sel (Some rv) (Some tv) (Some re) i = Inr s
        \<and> - int (n_poses arucos) \<le> s \<and> s < int (n_poses arucos)"
  shows "\<exists>out rv' tv' re'.
      select_aruco_poses arucos sel = Inr out
    \<and> n_poses out = 1
    \<and> n_markers out = n_markers arucos
    \<and> ids out = ids arucos
    \<and> out = arucos\<lparr>n_poses := 1, rvecs := Some rv', tvecs := Some tv',
               reprojection_errors := Some re'\<rparr>
    \<and> nd_shape rv' = [n_markers arucos, 1, 3]
    \<and> nd_shape tv' = [n_markers arucos, 1, 3]
    \<and> nd_shape re' = [n_markers arucos, 1]
    \<and> (\<forall>i<n_markers arucos. \<exists>s j.
          select_one sel (Some rv) (Some tv) (Some re) i = Inr s
        \<and> wrap_index (n_poses arucos) s = Inr j
        \<and> nd_index2 rv' i 0 = nd_index2 rv i j
        \<and> nd_index2 tv' i 0 = nd_index2 tv i j
        \<and> nd_index2 re' i 0 = nd_index2 re i j)"
proof -
  define n where "n = n_markers arucos"
  define p where "p = n_poses arucos"
  have "\<forall>i. \<exists>s j. i < n \<longrightarrow> select_one sel (Some rv) (Some tv) (Some re) i = Inr s
      \<and> wrap_index p s = Inr j"
    using sel wrap_index_total unfolding n_def p_def by metis
  then obtain ss js where sj: "\<And>i. i < n \<Longrightarrow>
      select_one sel (Some rv) (Some tv) (Some re) i = Inr (ss i) \<and> wrap_index p (ss i) = Inr (js i)"
    by metis
  define selected where "selected = map ss [0..<n]"
  have fields: "rvecs arucos = Some rv" "tvecs arucos = Some tv" "reprojection_errors arucos = Some re"
    using arr by (simp_all add: pose_arrays_def)
  have col: "collect (map (select_one sel (Some rv) (Some tv) (Some re)) [0..<n]) = Inr selected"
    unfolding selected_def by (rule collect_map_Inr) (simp add: sj)
  have len: "length selected = n" by (simp add: selected_def)
  have wj: "wrap_index p (selected ! i) = Inr (js i)" if "i < n" for i
    using sj [OF that] that by (simp add: selected_def)
  have "nd_shape rv = n # p # [3]" "nd_ok rv"
    using arr by (simp_all add: pose_arrays_def n_def p_def)
  then have "\<exists>out. take_along_axis1 rv selected 3 = Inr out \<and> nd_shape out = n # 1 # [3]
     \<and> nd_ok out \<and> (\<forall>i<n. nd_index2 out i 0 = nd_index2 rv i (js i))"
    using len pos wj by (intro take_along_axis1_spec) (simp_all add: n_def)
  then obtain rv' where rv': "take_along_axis1 rv selected 3 = Inr rv'" "nd_shape rv' = [n, 1, 3]"
      "\<forall>i<n. nd_index2 rv' i 0 = nd_index2 rv i (js i)"
    by blast
  have "nd_shape tv = n # p # [3]" "nd_ok tv"
    using arr by (simp_all add: pose_arrays_def n_def p_def)
  then have "\<exists>out. take_along_axis1 tv selected 3 = Inr out \<and> nd_shape out = n # 1 # [3]
     \<and> nd_ok out \<and> (\<forall>i<n. nd_index2 out i 0 = nd_index2 tv i (js i))"
    using len pos wj by (intro take_along_axis1_spec) (simp_all add: n_def)
  then obtain tv' where tv': "take_along_axis1 tv selected 3 = Inr tv'" "nd_shape tv' = [n, 1, 3]"
      "\<forall>i<n. nd_index2 tv' i 0 = nd_index2 tv i (js i)"
    by blast
  have "nd_shape re = n # p # []" "nd_ok re"
    using arr by (simp_all add: pose_arrays_def n_def p_def)
  then have "\<exists>out. take_along_axis1 re selected 2 = Inr out \<and> nd_shape out = n # 1 # []
     \<and> nd_ok out \<and> (\<forall>i<n. nd_index2 out i 0 = nd_index2 re i (js i))"
    using len pos wj by (intro take_along_axis1_spec) (simp_all add: n_def)
  then obtain re' where re': "take_along_axis1 re selected 2 = Inr re'" "nd_shape re' = [n, 1]"
      "\<forall>i<n. nd_index2 re' i 0 = nd_index2 re i (js i)"
    by blast
  have res: "select_aruco_poses arucos sel =
        Inr (arucos\<lparr>n_poses := 1, rvecs := Some rv', tvecs := Some tv',
               reprojection_errors := Some re'\<rparr>)"
    using pos col rv'(1) tv'(1) re'(1)
    by (simp add: select_aruco_poses_def fields py_take_along_axis1_def n_def [symmetric])
  have each: "\<forall>i<n. \<exists>s j. select_one sel (Some rv) (Some tv) (Some re) i = Inr s
        \<and> wrap_index p s = Inr j
        \<and> nd_index2 rv' i 0 = nd_index2 rv i j
        \<and> nd_index2 tv' i 0 = nd_index2 tv i j
        \<and> nd_index2 re' i 0 = nd_index2 re i j"
    using sj rv'(3) tv'(3) re'(3) by blast
  define out where "out = arucos\<lparr>n_poses := 1, rvecs := Some rv', tvecs := Some tv',
               reprojection_errors := Some re'\<rparr>"
  have kept: "n_poses out = 1" "n_markers out = n_markers arucos" "ids out = ids arucos"
    by (simp_all add: out_def)
  have "select_aruco_poses arucos sel = Inr out
    \<and> n_poses out = 1
    \<and> n_markers out = n_markers arucos
    \<and> ids out = ids arucos
    \<and> out = arucos\<lparr>n_poses := 1, rvecs := Some rv', tvecs := Some tv',
               reprojection_errors := Some re'\<rparr>
    \<and> nd_shape rv' = [n_markers arucos, 1, 3]
    \<and> nd_shape tv' = [n_markers arucos, 1, 3]
    \<and> nd_shape re' = [n_markers arucos, 1]
    \<and> (\<forall>i<n_markers arucos. \<exists>s j.
          select_one sel (Some rv) (Some tv) (Some re) i = Inr s
        \<and> wrap_index (n_poses arucos) s = Inr j
        \<and> nd_index2 rv' i 0 = nd_index2 rv i j
        \<and> nd_index2 tv' i 0 = nd_index2 tv i j
        \<and> nd_index2 re' i 0 = nd_index2 re i j)"
    using res kept rv'(2) tv'(2) re'(2) each unfolding n_def p_def out_def [symmetric]
    by (intro conjI) (simp_all add: out_def)
  then show ?thesis by blast
qed

lemma example_select_one:
  "select_one best (Some (NDArray [1, 2, 3] [0, 0, 0, pi / 2, 0, 0]))
     (Some (NDArray [1, 2, 3] [0, 0, 1, 0, 0, 2])) (Some (NDArray [1, 2] [1 / 2, 1 / 4])) 0 = Inr 1"
  by (simp add: select_one_def py_index_def nd_index_def best_def np_argmin_def np_argmax_def)

text \<open>The theorem at the example result with the selector \<open>best\<close>, which picks pose 1.\<close>

theorem select_aruco_poses_slices_witness:
  "0 < n_markers example_arucos
   \<and> pose_arrays example_arucos (NDArray [1, 2, 3] [0, 0, 0, pi / 2, 0, 0])
        (NDArray [1, 2, 3] [0, 0, 1, 0, 0, 2]) (NDArray [1, 2] [1 / 2, 1 / 4])
   \<and> select_one best (Some (NDArray [1, 2, 3] [0, 0, 0, pi / 2, 0, 0]))
        (Some (NDArray [1, 2, 3] [0, 0, 1, 0, 0, 2])) (Some (NDArray [1, 2] [1 / 2, 1 / 4])) 0 = Inr 1
   \<and> (\<exists>rv' tv' re'.
        select_aruco_poses example_arucos best =
          Inr (example_arucos\<lparr>n_poses := 1, rvecs := Some rv', tvecs := Some tv',
                 reprojection_errors := Some re'\<rparr>)
      \<and> nd_shape rv' = [1, 1, 3] \<and> nd_shape tv' = [1, 1, 3] \<and> nd_shape re' = [1, 1]
      \<and> nd_index2 rv' 0 0 = Inr (NDArray [3] [pi / 2, 0, 0])
      \<and> nd_index2 tv' 0 0 = Inr (NDArray [3] [0, 0, 2])
      \<and> nd_index2 re' 0 0 = Inr (NDArray [] [1 / 4]))"
proof -
  let ?rv = "NDArray [1, 2, 3] [0, 0, 0, pi / 2, 0, 0]"
  let ?tv = "NDArray [1, 2, 3] [0, 0, 1, 0, 0, 2]"
  let ?re = "NDArray [1, 2] [1 / 2, 1 / 4 :: real]"
  have h1: "0 < n_markers example_arucos" by (simp add: example_arucos_def)
  have h2: "pose_arrays example_arucos ?rv ?tv ?re"
    by (simp add: pose_arrays_def example_arucos_def nd_ok_def)
  have h3: "\<forall>i<n_markers example_arucos. \<exists>s. select_one best (Some ?rv) (Some ?tv) (Some ?re) i = Inr s
        \<and> - int (n_poses example_arucos) \<le> s \<and> s < int (n_poses example_arucos)"
    using example_select_one by (simp add: example_arucos_def)
  obtain out rv' tv' re' where r0:
    "select_aruco_poses example_arucos best = Inr out"
    "out = example_arucos\<lparr>n_poses := 1, rvecs := Some rv', tvecs := Some tv',
               reprojection_errors := Some re'\<rparr>"
    and r:
    "n_poses out = 1"
    "nd_shape rv' = [n_markers example_arucos, 1, 3]"
    "nd_shape tv' = [n_markers example_arucos, 1, 3]"
    "nd_shape re' = [n_markers example_arucos, 1]"
    "\<forall>i<n_markers example_arucos. \<exists>s j.
          select_one best (Some ?rv) (Some ?tv) (Some ?re) i = Inr s
        \<and> wrap_index (n_poses example_arucos) s = Inr j
        \<and> nd_index2 rv' i 0 = nd_index2 ?rv i j
        \<and> nd_index2 tv' i 0 = nd_index2 ?tv i j
        \<and> nd_index2 re' i 0 = nd_index2 ?re i j"
    using select_aruco_poses_slices [OF h1 h2 h3] by blast
  have n1: "n_markers example_arucos = 1" "n_poses example_arucos = 2"
    by (simp_all add: example_arucos_def)
  from r(5) obtain s j where sj: "select_one best (Some ?rv) (Some ?tv) (Some ?re) 0 = Inr s"
      "wrap_index 2 s = Inr j" "nd_index2 rv' 0 0 = nd_index2 ?rv 0 j"
      "nd_index2 tv' 0 0 = nd_index2 ?tv 0 j" "nd_index2 re' 0 0 = nd_index2 ?re 0 j"
    unfolding n1 by auto
  have "s = 1" using sj(1) example_select_one by simp
  then have "j = 1" using sj(2) by (simp add: wrap_index_def)
  then have "nd_index2 rv' 0 0 = Inr (NDArray [3] [pi / 2, 0, 0])"
    "nd_index2 tv' 0 0 = Inr (NDArray [3] [0, 0, 2])"
    "nd_index2 re' 0 0 = Inr (NDArray [] [1 / 4])"
    using sj(3-5) by (simp_all add: nd_index2_def nd_index_def)
  moreover have "select_aruco_poses example_arucos best =
          Inr (example_arucos\<lparr>n_poses := 1, rvecs := Some rv', tvecs := Some tv',
                 reprojection_errors := Some re'\<rparr>)"
    using r0 by simp
  ultimately show ?thesis
    using h1 h2 example_select_one r(2-4) unfolding n1 by blast
qed

text \<open>
  Claim C1 as stated fails: \<open>detect_aruco\<close> without calibration returns, for one
  detected marker, a result with count 1 and no pose arrays, and \<open>select_aruco_poses\<close>
  raises \<^verbatim>\<open>TypeError\<close> on it at \<^verbatim>\<open>rvecs[i]\<close>.
\<close>

theorem select_aruco_poses_without_poses:
  "detect_aruco [(7, [0, 0, 1, 0, 1, 1, 0, 1])] [] None None None False no_solver no_generic_solver =
     Inr \<lparr>n_markers = 1,
          corners = Some (NDArray [1, 1, 4, 2] [0, 0, 1, 0, 1, 1, 0, 1]),
          ids = Some (NDArray [1, 1] [7]),
          n_rejected = 0,
          rejected = Some (np_empty [0, 1, 4, 2]),
          aruco_sizes = None,
          n_poses = 0,
          rvecs = None,
          tvecs = None,
          reprojection_errors = None\<rparr>
   \<and> select_aruco_poses
       \<lparr>n_markers = 1,
        corners = Some (NDArray [1, 1, 4, 2] [0, 0, 1, 0, 1, 1, 0, 1]),
        ids = Some (NDArray [1, 1] [7]),
        n_rejected = 0,
        rejected = Some (np_empty [0, 1, 4, 2]),
        aruco_sizes = None,
        n_poses = 0,
        rvecs = None,
        tvecs = None,
        reprojection_errors = None\<rparr> best = Inl TypeError"
  by (simp add: detect_aruco_def select_aruco_poses_def select_one_def py_index_def Let_def)

text \<open>
  Claim C4. On a result with count 0, \<open>select_aruco_poses\<close> returns the result with
  \<open>n_poses = 1\<close> and the three pose arrays set to empty arrays of shape \<open>(0, 1, 3)\<close>: for
  \<^verbatim>\<open>reprojection_errors\<close> that is three axes. On the example result with one marker
  the selected \<^verbatim>\<open>reprojection_errors\<close> has the shape \<open>(1, 1)\<close>, two axes, as the class
  documents.
\<close>

theorem select_empty_reprojection_shape:
  "select_aruco_poses (arucos\<lparr>n_markers := 0\<rparr>) sel =
     Inr (arucos\<lparr>n_markers := 0, n_poses := 1,
            rvecs := Some (np_empty [0, 1, 3]),
            tvecs := Some (np_empty [0, 1, 3]),
            reprojection_errors := Some (np_empty [0, 1, 3])\<rparr>)
   \<and> nd_shape (np_empty [0, 1, 3] :: real ndarray) = [0, 1, 3]
   \<and> (\<exists>out re. select_aruco_poses example_arucos best = Inr out
        \<and> reprojection_errors out = Some re \<and> nd_shape re = [1, 1])"
proof -
  have "select_aruco_poses example_arucos best =
      Inr (example_arucos\<lparr>n_poses := 1,
             rvecs := Some (NDArray [1, 1, 3] [pi / 2, 0, 0]),
             tvecs := Some (NDArray [1, 1, 3] [0, 0, 2]),
             reprojection_errors := Some (NDArray [1, 1] [1 / 4])\<rparr>)"
    by (simp add: select_aruco_poses_def example_arucos_def select_one_def py_index_def
        nd_index_def best_def np_argmin_def np_argmax_def py_take_along_axis1_def
        take_along_axis1_def broadcast_dim_def wrap_index_def)
  then show ?thesis
    by (simp add: select_aruco_poses_def np_empty_def)
qed

section \<open>Properties of detect_aruco\<close>

text \<open>
  Claim C5 as stated fails when no marker is detected: without calibration and sizes
  the result has \<open>n_poses = 1\<close> and its size and pose arrays are present (and empty).
\<close>

theorem detect_aruco_no_markers_no_calibration:
  "detect_aruco [] [] None None None False no_solver no_generic_solver =
     Inr \<lparr>n_markers = 0,
          corners = Some (np_empty [0, 1, 4, 2]),
          ids = Some (np_empty [0, 1]),
          n_rejected = 0,
          rejected = Some (np_empty [0, 1, 4, 2]),
          aruco_sizes = Some (np_empty [0]),
          n_poses = 1,
          rvecs = Some (np_empty [0, 1, 3]),
          tvecs = Some (np_empty [0, 1, 3]),
          reprojection_errors = Some (np_empty [0, 1])\<rparr>"
  by (simp add: detect_aruco_def Let_def)

text \<open>
  Claim C5, as amended. When at least one marker is detected and any of \<open>K\<close>, \<open>D\<close>,
  \<^verbatim>\<open>aruco_sizes\<close> is missing, \<open>detect_aruco\<close> returns a result with \<open>n_poses = 0\<close> and
  with \<^verbatim>\<open>aruco_sizes\<close>, \<^verbatim>\<open>rvecs\<close>, \<^verbatim>\<open>tvecs\<close> and \<^verbatim>\<open>reprojection_errors\<close> absent.
  When no marker is detected it returns a result with count 0, \<open>n_poses\<close> 1 or 2 by the
  mode, and empty size and pose arrays of the shapes \<open>(0,)\<close>, \<open>(0, n_poses, 3)\<close>,
  \<open>(0, n_poses, 3)\<close>, \<open>(0, n_poses)\<close>, whatever was supplied. In both cases the pose solvers
  do not run: the result is the same for any two pairs of solvers.
\<close>

theorem detect_aruco_without_calibration:
  "(detected \<noteq> [] \<and> (K = None \<or> D = None \<or> sizes = None) \<longrightarrow>
      (\<exists>r. detect_aruco detected rejected_quads K D sizes use_generic solve solve_generic = Inr r
         \<and> n_markers r = length detected \<and> n_poses r = 0 \<and> aruco_sizes r = None
         \<and> rvecs r = None \<and> tvecs r = None \<and> reprojection_errors r = None))
   \<and> (detected = [] \<longrightarrow>
      (\<exists>r. detect_aruco detected rejected_quads K D sizes use_generic solve solve_generic = Inr r
         \<and> n_markers r = 0 \<and> n_poses r = (if use_generic then 2 else 1)
         \<and> aruco_sizes r = Some (np_empty [0])
         \<and> rvecs r = Some (np_empty [0, n_poses r, 3])
         \<and> tvecs r = Some (np_empty [0, n_poses r, 3])
         \<and> reprojection_errors r = Some (np_empty [0, n_poses r])))
   \<and> (detected = [] \<or> K = None \<or> D = None \<or> sizes = None \<longrightarrow>
        detect_aruco detected rejected_quads K D sizes use_generic solve solve_generic
      = detect_aruco detected rejected_quads K D sizes use_generic solve' solve_generic')"
  by (auto simp: detect_aruco_def Let_def)

text \<open>
  The theorem at one detected marker with the distortion missing, and at no marker in
  the generic mode.
\<close>

theorem detect_aruco_without_calibration_witness:
  "[(7, [0, 0, 1, 0, 1, 1, 0, 1])] \<noteq> []
   \<and> (\<exists>r. detect_aruco [(7, [0, 0, 1, 0, 1, 1, 0, 1])] [] (Some ()) None (Some (SizeScalar 2)) False
            fixed_solver no_generic_solver = Inr r
         \<and> n_markers r = 1 \<and> n_poses r = 0 \<and> aruco_sizes r = None
         \<and> rvecs r = None \<and> tvecs r = None \<and> reprojection_errors r = None)
   \<and> (\<exists>r. detect_aruco [] [] (Some ()) None (Some (SizeScalar 2)) True
            fixed_solver no_generic_solver = Inr r
         \<and> n_markers r = 0 \<and> n_poses r = 2 \<and> rvecs r = Some (np_empty [0, 2, 3]))
   \<and> detect_aruco [(7, [0, 0, 1, 0, 1, 1, 0, 1])] [] (Some ()) None (Some (SizeScalar 2)) False
        fixed_solver no_generic_solver
     = detect_aruco [(7, [0, 0, 1, 0, 1, 1, 0, 1])] [] (Some ()) None (Some (SizeScalar 2)) False
        no_solver no_generic_solver"
proof -
  note t1 = detect_aruco_without_calibration
    [of "[(7, [0, 0, 1, 0, 1, 1, 0, 1])]" "Some ()" None "Some (SizeScalar 2)" "[]" False
       fixed_solver no_generic_solver no_solver no_generic_solver]
  note t2 = detect_aruco_without_calibration
    [of "[]" "Some ()" None "Some (SizeScalar 2)" "[]" True
       fixed_solver no_generic_solver no_solver no_generic_solver]
  have a: "\<exists>r. detect_aruco [(7, [0, 0, 1, 0, 1, 1, 0, 1])] [] (Some ()) None (Some (SizeScalar 2)) False
            fixed_solver no_generic_solver = Inr r
         \<and> n_markers r = 1 \<and> n_poses r = 0 \<and> aruco_sizes r = None
         \<and> rvecs r = None \<and> tvecs r = None \<and> reprojection_errors r = None"
    using t1 [THEN conjunct1] by simp
  have b: "\<exists>r. detect_aruco [] [] (Some ()) None (Some (SizeScalar 2)) True
            fixed_solver no_generic_solver = Inr r
         \<and> n_markers r = 0 \<and> n_poses r = 2 \<and> rvecs r = Some (np_empty [0, 2, 3])"
    using t2 [THEN conjunct2, THEN conjunct1] by auto
  have c: "detect_aruco [(7, [0, 0, 1, 0, 1, 1, 0, 1])] [] (Some ()) None (Some (SizeScalar 2)) False
        fixed_solver no_generic_solver
     = detect_aruco [(7, [0, 0, 1, 0, 1, 1, 0, 1])] [] (Some ()) None (Some (SizeScalar 2)) False
        no_solver no_generic_solver"
    using t1 [THEN conjunct2, THEN conjunct2] by simp
  show ?thesis
    using a b c by simp
qed


lemma collect_error: "collect rs = Inl e \<Longrightarrow> Inl e \<in> set rs"
  by (induction rs rule: collect.induct) (auto split: sum.splits)

lemma estimate_marker_error:
  "estimate_marker solve solve_generic use_generic np K D aruco_size corner = Inl e
     \<Longrightarrow> e = CvError \<or> e = AssertionError"
  by (auto simp: estimate_marker_def Let_def split: if_splits option.splits)

lemma detect_aruco_sizes_array:
  assumes "detected \<noteq> []"
  shows "(validation_error (detect_aruco detected rejected_quads (Some K) (Some D) (Some sz)
            use_generic solve solve_generic)
          \<longleftrightarrow> nd_shape (case sz of SizeSequence a \<Rightarrow> a | SizeArray a \<Rightarrow> a
                 | SizeScalar s \<Rightarrow> NDArray [length detected] (replicate (length detected) s))
                \<noteq> [length detected])
     \<and> (detect_aruco detected rejected_quads (Some K) (Some D) (Some sz)
            use_generic solve solve_generic = Inl RuntimeError_sizes_not_1d
          \<longleftrightarrow> length (nd_shape (case sz of SizeSequence a \<Rightarrow> a | SizeArray a \<Rightarrow> a
                 | SizeScalar s \<Rightarrow> NDArray [length detected] (replicate (length detected) s))) \<noteq> 1)"
proof -
  define arr where "arr = (case sz of SizeSequence a \<Rightarrow> a | SizeArray a \<Rightarrow> a
                 | SizeScalar s \<Rightarrow> NDArray [length detected] (replicate (length detected) s))"
  define n where "n = length detected"
  have n: "n \<noteq> 0" using assms by (simp add: n_def)
  define runs where "runs = collect (map (\<lambda>i.
                        estimate_marker solve solve_generic use_generic (if \<not> use_generic then 1 else 2) K D
                          (nd_data arr ! i) (snd (sort_key fst detected ! i)))
                      [0..<n])"
  have runs_error: "e = CvError \<or> e = AssertionError" if "runs = Inl e" for e
  proof -
    have "Inl e \<in> set (map (\<lambda>i.
                        estimate_marker solve solve_generic use_generic (if \<not> use_generic then 1 else 2) K D
                          (nd_data arr ! i) (snd (sort_key fst detected ! i)))
                      [0..<n])"
      using that unfolding runs_def by (rule collect_error)
    then obtain i where "estimate_marker solve solve_generic use_generic (if \<not> use_generic then 1 else 2) K D
                          (nd_data arr ! i) (snd (sort_key fst detected ! i)) = Inl e"
      by auto
    then show ?thesis by (rule estimate_marker_error)
  qed
  have no_rt: "runs \<noteq> Inl RuntimeError_sizes_not_1d" "runs \<noteq> Inl RuntimeError_sizes_count"
    using runs_error by auto
  let ?det = "detect_aruco detected rejected_quads (Some K) (Some D) (Some sz)
            use_generic solve solve_generic"
  have d1: "?det = Inl RuntimeError_sizes_not_1d" if "length (nd_shape arr) \<noteq> 1"
    using n that unfolding arr_def n_def by (simp add: detect_aruco_def Let_def)
  have d2: "?det = Inl RuntimeError_sizes_count"
    if "length (nd_shape arr) = 1" and "nd_shape arr \<noteq> [n]"
    using n that unfolding arr_def n_def by (simp add: detect_aruco_def Let_def)
  have d3: "(\<exists>r. ?det = Inr r) \<or> (\<exists>e. ?det = Inl e \<and> runs = Inl e)" if "nd_shape arr = [n]"
    using n that unfolding runs_def arr_def n_def
    by (simp add: detect_aruco_def Let_def split: sum.splits)
  have ok: "\<not> validation_error ?det" "?det \<noteq> Inl RuntimeError_sizes_not_1d" if "nd_shape arr = [n]"
    using d3 [OF that] no_rt by (auto simp: validation_error_def)
  have bad: "validation_error ?det" if "nd_shape arr \<noteq> [n]"
    using d1 d2 that by (cases "length (nd_shape arr) = 1") (auto simp: validation_error_def)
  have rank: "?det \<noteq> Inl RuntimeError_sizes_not_1d" if "length (nd_shape arr) = 1"
  proof (cases "nd_shape arr = [n]")
    case True
    then show ?thesis by (rule ok(2))
  next
    case False
    then show ?thesis using d2 [OF that] by simp
  qed
  have "(validation_error ?det \<longleftrightarrow> nd_shape arr \<noteq> [n])
      \<and> (?det = Inl RuntimeError_sizes_not_1d \<longleftrightarrow> length (nd_shape arr) \<noteq> 1)"
    using ok(1) bad d1 rank by blast
  then show ?thesis
    unfolding arr_def n_def .
qed

text \<open>
  Claim C8. With at least one detected marker (\<open>n\<close> of them) and the calibration
  supplied: for sizes given as a list, a tuple or an array, \<open>detect_aruco\<close> raises one of
  its two size errors if and only if the shape of the sizes is not \<open>(n,)\<close>, and the
  first of them if and only if the sizes are not one-dimensional; for a single number it
  raises neither and behaves as for the array of \<open>n\<close> copies of the number.
\<close>

theorem detect_aruco_size_validation:
  "detected \<noteq> [] \<longrightarrow>
     (validation_error (detect_aruco detected rejected_quads (Some K) (Some D)
          (Some (SizeSequence a)) use_generic solve solve_generic)
        \<longleftrightarrow> nd_shape a \<noteq> [length detected])
   \<and> (validation_error (detect_aruco detected rejected_quads (Some K) (Some D)
          (Some (SizeArray a)) use_generic solve solve_generic)
        \<longleftrightarrow> nd_shape a \<noteq> [length detected])
   \<and> (detect_aruco detected rejected_quads (Some K) (Some D)
          (Some (SizeSequence a)) use_generic solve solve_generic = Inl RuntimeError_sizes_not_1d
        \<longleftrightarrow> length (nd_shape a) \<noteq> 1)
   \<and> \<not> validation_error (detect_aruco detected rejected_quads (Some K) (Some D)
          (Some (SizeScalar s)) use_generic solve solve_generic)
   \<and> detect_aruco detected rejected_quads (Some K) (Some D)
          (Some (SizeScalar s)) use_generic solve solve_generic
     = detect_aruco detected rejected_quads (Some K) (Some D)
          (Some (SizeArray (NDArray [length detected] (replicate (length detected) s))))
          use_generic solve solve_generic"
proof
  assume ne: "detected \<noteq> []"
  note seq = detect_aruco_sizes_array [OF ne, of rejected_quads K D "SizeSequence a" use_generic solve solve_generic]
  note arr = detect_aruco_sizes_array [OF ne, of rejected_quads K D "SizeArray a" use_generic solve solve_generic]
  note sca = detect_aruco_sizes_array [OF ne, of rejected_quads K D "SizeScalar s" use_generic solve solve_generic]
  have same: "detect_aruco detected rejected_quads (Some K) (Some D)
          (Some (SizeScalar s)) use_generic solve solve_generic
     = detect_aruco detected rejected_quads (Some K) (Some D)
          (Some (SizeArray (NDArray [length detected] (replicate (length detected) s))))
          use_generic solve solve_generic"
    by (simp add: detect_aruco_def Let_def)
  show "(validation_error (detect_aruco detected rejected_quads (Some K) (Some D)
          (Some (SizeSequence a)) use_generic solve solve_generic)
        \<longleftrightarrow> nd_shape a \<noteq> [length detected])
   \<and> (validation_error (detect_aruco detected rejected_quads (Some K) (Some D)
          (Some (SizeArray a)) use_generic solve solve_generic)
        \<longleftrightarrow> nd_shape a \<noteq> [length detected])
   \<and> (detect_aruco detected rejected_quads (Some K) (Some D)
          (Some (SizeSequence a)) use_generic solve solve_generic = Inl RuntimeError_sizes_not_1d
        \<longleftrightarrow> length (nd_shape a) \<noteq> 1)
   \<and> \<not> validation_error (detect_aruco detected rejected_quads (Some K) (Some D)
          (Some (SizeScalar s)) use_generic solve solve_generic)
   \<and> detect_aruco detected rejected_quads (Some K) (Some D)
          (Some (SizeScalar s)) use_generic solve solve_generic
     = detect_aruco detected rejected_quads (Some K) (Some D)
          (Some (SizeArray (NDArray [length detected] (replicate (length detected) s))))
          use_generic solve solve_generic"
    using seq arr sca same by simp
qed

text \<open>
  The theorem at one detected marker: two sizes are refused, one size and a single number
  are accepted.
\<close>

theorem detect_aruco_size_validation_witness:
  "[(7, [0, 0, 1, 0, 1, 1, 0, 1])] \<noteq> []
   \<and> validation_error (detect_aruco [(7, [0, 0, 1, 0, 1, 1, 0, 1])] [] (Some ()) (Some ())
          (Some (SizeSequence (NDArray [2] [2, 2]))) False fixed_solver no_generic_solver)
   \<and> \<not> validation_error (detect_aruco [(7, [0, 0, 1, 0, 1, 1, 0, 1])] [] (Some ()) (Some ())
          (Some (SizeSequence (NDArray [1] [2]))) False fixed_solver no_generic_solver)
   \<and> \<not> validation_error (detect_aruco [(7, [0, 0, 1, 0, 1, 1, 0, 1])] [] (Some ()) (Some ())
          (Some (SizeScalar 2)) False fixed_solver no_generic_solver)"
proof -
  have ne: "[(7::int, [0, 0, 1, 0, 1, 1, 0, 1::real])] \<noteq> []" by simp
  note t1 = detect_aruco_size_validation
    [of "[(7, [0, 0, 1, 0, 1, 1, 0, 1])]" "[]" "()" "()" "NDArray [2] [2, 2]" False
       fixed_solver no_generic_solver 2, THEN mp, OF ne]
  note t2 = detect_aruco_size_validation
    [of "[(7, [0, 0, 1, 0, 1, 1, 0, 1])]" "[]" "()" "()" "NDArray [1] [2]" False
       fixed_solver no_generic_solver 2, THEN mp, OF ne]
  have a: "validation_error (detect_aruco [(7, [0, 0, 1, 0, 1, 1, 0, 1])] [] (Some ()) (Some ())
          (Some (SizeSequence (NDArray [2] [2, 2]))) False fixed_solver no_generic_solver)"
    using t1 [THEN conjunct1] by simp
  have b: "\<not> validation_error (detect_aruco [(7, [0, 0, 1, 0, 1, 1, 0, 1])] [] (Some ()) (Some ())
          (Some (SizeSequence (NDArray [1] [2]))) False fixed_solver no_generic_solver)"
    using t2 [THEN conjunct1] by simp
  have c: "\<not> validation_error (detect_aruco [(7, [0, 0, 1, 0, 1, 1, 0, 1])] [] (Some ()) (Some ())
          (Some (SizeScalar 2)) False fixed_solver no_generic_solver)"
    using t2 [THEN conjunct2, THEN conjunct2, THEN conjunct2, THEN conjunct1] by simp
  show ?thesis using ne a b c by blast
qed

section \<open>Properties of get_aruco_corners_3d\<close>

lemma concat_block_upt:
  assumes "\<And>i. i < m \<Longrightarrow> length (f i) = k" and "i < m"
  shows "take k (drop (i * k) (concat (map f [0..<m]))) = f i"
proof -
  have "\<forall>x\<in>set (map f [0..<m]). length x = k" using assms(1) by auto
  then have "take k (drop (i * k) (concat (map f [0..<m]))) = map f [0..<m] ! i"
    using assms(2) by (intro concat_block) simp_all
  then show ?thesis using assms(2) by simp
qed

lemma length_concat_upt:
  assumes "\<And>i. i < m \<Longrightarrow> length (f i) = k"
  shows "length (concat (map f [0..<m])) = m * k"
proof -
  have "\<forall>x\<in>set (map f [0..<m]). length x = k" using assms by auto
  then have "length (concat (map f [0..<m])) = length (map f [0..<m]) * k"
    by (rule length_concat_blocks)
  then show ?thesis by simp
qed

lemma list3_exists: "length xs = 3 \<Longrightarrow> \<exists>v. xs = vec3_list v"
proof -
  assume "length xs = 3"
  then obtain x y z where "xs = [x, y, z]"
    by (metis (no_types, opaque_lifting) length_0_conv length_Suc_conv numeral_3_eq_3)
  then have "xs = vec3_list (x, y, z)" by simp
  then show ?thesis by blast
qed

lemma nd_index2_vec3:
  assumes "nd_shape a = [n, p, 3]" and "nd_ok a" and "i < n" and "j < p"
  shows "\<exists>v. nd_index2 a i j = Inr (NDArray [3] (vec3_list v))"
proof -
  have len: "length (nd_data a) = n * p * 3"
    using assms(1,2) by (simp add: nd_ok_def)
  have "(i * p + j) * 3 + 3 \<le> n * p * 3"
    using assms(3,4) by (rule block_bound)
  then have "length (take 3 (drop ((i * p + j) * 3) (nd_data a))) = 3"
    using len by simp
  then obtain v where "take 3 (drop ((i * p + j) * 3) (nd_data a)) = vec3_list v"
    using list3_exists by blast
  moreover have "nd_index2 a i j =
      Inr (NDArray [3] (take (prod_list [3]) (drop ((i * p + j) * prod_list [3]) (nd_data a))))"
    using assms(1,3,4) by (intro nd_index2_block) simp_all
  then have "nd_index2 a i j = Inr (NDArray [3] (take 3 (drop ((i * p + j) * 3) (nd_data a))))"
    by simp
  ultimately have "nd_index2 a i j = Inr (NDArray [3] (vec3_list v))"
    by (simp only:)
  then show ?thesis by blast
qed

lemma size_at_ok:
  assumes "nd_shape sz = [n]" and "nd_ok sz" and "i < n"
  shows "\<exists>s. size_at sz i = Inr s"
proof -
  have "length (nd_data sz) = n" using assms(1,2) by (simp add: nd_ok_def)
  then have "length (take 1 (drop i (nd_data sz))) = 1" using assms(3) by simp
  then obtain s where "take 1 (drop i (nd_data sz)) = [s]"
    by (metis One_nat_def length_0_conv length_Suc_conv)
  then show ?thesis
    using assms(1,3) by (simp add: size_at_def nd_index_def)
qed

lemma vec3_of_list: "vec3_of err (NDArray shp (vec3_list v)) = Inr v"
  by (cases v) (simp add: vec3_of_def)

lemma pose_times_corner:
  "take 3 (matvec (transform4 R t) [x, y, 0, 1]) = vec3_list (vadd (mat_vec R (x, y, 0)) t)"
proof -
  obtain a b c d e f g h i where R: "R = ((a, b, c), (d, e, f), (g, h, i))"
    by (metis prod_cases3)
  obtain tx ty tz where t: "t = (tx, ty, tz)" by (metis prod_cases3)
  show ?thesis by (simp add: R t matvec_def)
qed

lemma corner_is_obj_point:
  "k < 4 \<Longrightarrow> corners_3d_in_single_marker_frame s ! k =
      (case obj_points s ! k of (x, y, z) \<Rightarrow> [x, y, 0, 1])"
proof -
  assume "k < 4"
  then have "k = 0 \<or> k = 1 \<or> k = 2 \<or> k = 3" by auto
  then show ?thesis
    by (auto simp: corners_3d_in_single_marker_frame_def corner_signs_def obj_points_def)
qed

lemma obj_point_flat: "k < 4 \<Longrightarrow> third (obj_points s ! k) = 0"
proof -
  assume "k < 4"
  then have "k = 0 \<or> k = 1 \<or> k = 2 \<or> k = 3" by auto
  then show ?thesis
    by (auto simp: obj_points_def)
qed

lemma marker_corner_in_camera:
  assumes "k < 4"
  shows "take 3 (matvec (transform4 R t) (corners_3d_in_single_marker_frame s ! k))
     = vec3_list (vadd (mat_vec R (obj_points s ! k)) t)"
proof -
  obtain x y z where o: "obj_points s ! k = (x, y, z)" by (metis prod_cases3)
  have "z = 0" using obj_point_flat [OF assms, of s] o by simp
  then show ?thesis
    using corner_is_obj_point [OF assms, of s] o by (simp add: pose_times_corner)
qed

text \<open>
  Claim C6. For a result whose sizes and poses are present with the documented shapes
  (\<open>n\<close> markers, \<open>n_poses\<close> candidates), \<open>get_aruco_corners_3d\<close> returns an array of shape
  \<open>(n, n_poses, 4, 3)\<close> whose entry \<open>[i, j, k]\<close> is the rotation of \<open>rvecs[i, j]\<close> applied
  to the \<open>k\<close>-th object point of the pose solve for the size of marker \<open>i\<close>, plus
  \<open>tvecs[i, j]\<close>; the object points for a side \<open>s\<close> are \<open>(-s/2, s/2, 0)\<close>,
  \<open>(s/2, s/2, 0)\<close>, \<open>(s/2, -s/2, 0)\<close>, \<open>(-s/2, -s/2, 0)\<close>. When the sizes, the rotations or
  the translations are absent it returns \<^verbatim>\<open>None\<close>.
\<close>

theorem get_aruco_corners_3d_correct:
  "(sizes_and_poses arucos sz rv tv \<longrightarrow>
      (\<exists>out. get_aruco_corners_3d arucos = Inr (Some out)
         \<and> nd_shape out = [n_markers arucos, n_poses arucos, 4, 3]
         \<and> nd_ok out
         \<and> (\<forall>i<n_markers arucos. \<forall>j<n_poses arucos. \<forall>k<4. \<exists>s r t.
               size_at sz i = Inr s
             \<and> nd_index2 rv i j = Inr (NDArray [3] (vec3_list r))
             \<and> nd_index2 tv i j = Inr (NDArray [3] (vec3_list t))
             \<and> nd_index3 out i j k =
                 Inr (NDArray [3] (vec3_list (vadd (mat_vec (Rodrigues r) (obj_points s ! k)) t))))))
   \<and> (aruco_sizes arucos = None \<or> rvecs arucos = None \<or> tvecs arucos = None \<longrightarrow>
        get_aruco_corners_3d arucos = Inr None)
   \<and> obj_points s0 =
        [(- s0 / 2, s0 / 2, 0), (s0 / 2, s0 / 2, 0), (s0 / 2, - s0 / 2, 0), (- s0 / 2, - s0 / 2, 0)]"
proof (intro conjI impI)
  show "obj_points s0 =
        [(- s0 / 2, s0 / 2, 0), (s0 / 2, s0 / 2, 0), (s0 / 2, - s0 / 2, 0), (- s0 / 2, - s0 / 2, 0)]"
    by (simp add: obj_points_def)
next
  assume "aruco_sizes arucos = None \<or> rvecs arucos = None \<or> tvecs arucos = None"
  then show "get_aruco_corners_3d arucos = Inr None"
    by (auto simp: get_aruco_corners_3d_def split: option.splits)
next
  assume wf: "sizes_and_poses arucos sz rv tv"
  define n where "n = n_markers arucos"
  define p where "p = n_poses arucos"
  have fields: "aruco_sizes arucos = Some sz" "rvecs arucos = Some rv" "tvecs arucos = Some tv"
    using wf by (simp_all add: sizes_and_poses_def)
  have szs: "nd_shape sz = [n]" "nd_ok sz"
    and rvs: "nd_shape rv = [n, p, 3]" "nd_ok rv"
    and tvs: "nd_shape tv = [n, p, 3]" "nd_ok tv"
    using wf by (simp_all add: sizes_and_poses_def n_def p_def)
  have "\<forall>i. \<exists>s. i < n \<longrightarrow> size_at sz i = Inr s"
    using size_at_ok [OF szs] by blast
  then obtain S where S: "\<And>i. i < n \<Longrightarrow> size_at sz i = Inr (S i)"
    by metis
  have "\<forall>i j. \<exists>v. i < n \<and> j < p \<longrightarrow> nd_index2 rv i j = Inr (NDArray [3] (vec3_list v))"
    using nd_index2_vec3 [OF rvs] by blast
  then obtain Rv where Rv: "\<And>i j. i < n \<Longrightarrow> j < p \<Longrightarrow> nd_index2 rv i j = Inr (NDArray [3] (vec3_list (Rv i j)))"
    by metis
  have "\<forall>i j. \<exists>v. i < n \<and> j < p \<longrightarrow> nd_index2 tv i j = Inr (NDArray [3] (vec3_list v))"
    using nd_index2_vec3 [OF tvs] by blast
  then obtain Tv where Tv: "\<And>i j. i < n \<Longrightarrow> j < p \<Longrightarrow> nd_index2 tv i j = Inr (NDArray [3] (vec3_list (Tv i j)))"
    by metis
  define P where "P = (\<lambda>i j. transform4 (Rodrigues (Rv i j)) (Tv i j))"
  define F where "F = (\<lambda>i. corners_3d_in_single_marker_frame (S i))"
  define G where "G = (\<lambda>i j k. vec3_list (vadd (mat_vec (Rodrigues (Rv i j)) (obj_points (S i) ! k)) (Tv i j)))"
  define M where "M = (\<lambda>i j. concat (map (G i j) [0..<4]))"
  define B where "B = (\<lambda>i. concat (map (M i) [0..<p]))"
  define out where "out = NDArray [n, p, 4, 3] (concat (map B [0..<n]))"
  have mp: "marker_pose rv tv i j = Inr (P i j)" if "i < n" "j < p" for i j
    using Rv [OF that] Tv [OF that] by (simp add: marker_pose_def vec3_of_list P_def)
  have row: "collect (map (marker_pose rv tv i) [0..<p]) = Inr (map (P i) [0..<p])" if "i < n" for i
    by (rule collect_map_Inr) (simp add: mp that)
  have poses: "collect (map (\<lambda>i. collect (map (marker_pose rv tv i) [0..<p])) [0..<n])
      = Inr (map (\<lambda>i. map (P i) [0..<p]) [0..<n])"
    by (rule collect_map_Inr) (simp add: row)
  have frames: "collect (map (marker_corners sz) [0..<n]) = Inr (map F [0..<n])"
    by (rule collect_map_Inr) (simp add: marker_corners_def S F_def)
  have G3: "length (G i j k) = 3" for i j k
    by (cases "vadd (mat_vec (Rodrigues (Rv i j)) (obj_points (S i) ! k)) (Tv i j)")
      (simp add: G_def)
  have M12: "length (M i j) = 4 * 3" for i j
    unfolding M_def by (rule length_concat_upt) (rule G3)
  have Bp: "length (B i) = p * (4 * 3)" for i
    unfolding B_def by (rule length_concat_upt) (rule M12)
  have Gk: "take 3 (matvec (map (\<lambda>i. map (P i) [0..<p]) [0..<n] ! i ! j) (map F [0..<n] ! i ! k)) = G i j k"
    if "i < n" "j < p" "k < 4" for i j k
    using that by (simp add: P_def F_def G_def marker_corner_in_camera)
  have data: "concat (map (\<lambda>i. concat (map (\<lambda>j. concat (map (\<lambda>k.
        take 3 (matvec (map (\<lambda>i. map (P i) [0..<p]) [0..<n] ! i ! j) (map F [0..<n] ! i ! k)))
        [0..<4])) [0..<p])) [0..<n]) = concat (map B [0..<n])"
  proof -
    have "map (\<lambda>i. concat (map (\<lambda>j. concat (map (\<lambda>k.
        take 3 (matvec (map (\<lambda>i. map (P i) [0..<p]) [0..<n] ! i ! j) (map F [0..<n] ! i ! k)))
        [0..<4])) [0..<p])) [0..<n] = map B [0..<n]"
    proof (rule map_cong [OF refl])
      fix i assume "i \<in> set [0..<n]"
      then have i: "i < n" by simp
      have "map (\<lambda>j. concat (map (\<lambda>k.
        take 3 (matvec (map (\<lambda>i. map (P i) [0..<p]) [0..<n] ! i ! j) (map F [0..<n] ! i ! k)))
        [0..<4])) [0..<p] = map (M i) [0..<p]"
      proof (rule map_cong [OF refl])
        fix j assume "j \<in> set [0..<p]"
        then have j: "j < p" by simp
        have "map (\<lambda>k. take 3 (matvec (map (\<lambda>i. map (P i) [0..<p]) [0..<n] ! i ! j)
            (map F [0..<n] ! i ! k))) [0..<4] = map (G i j) [0..<4]"
          by (rule map_cong [OF refl]) (simp add: Gk [OF i j])
        then show "concat (map (\<lambda>k. take 3 (matvec (map (\<lambda>i. map (P i) [0..<p]) [0..<n] ! i ! j)
            (map F [0..<n] ! i ! k))) [0..<4]) = M i j"
          by (simp only: M_def)
      qed
      then show "concat (map (\<lambda>j. concat (map (\<lambda>k.
        take 3 (matvec (map (\<lambda>i. map (P i) [0..<p]) [0..<n] ! i ! j) (map F [0..<n] ! i ! k)))
        [0..<4])) [0..<p]) = B i"
        by (simp only: B_def)
    qed
    then show ?thesis by (simp only:)
  qed
  have res: "get_aruco_corners_3d arucos = Inr (Some out)"
  proof (cases "n = 0")
    case True
    then show ?thesis
      by (simp add: get_aruco_corners_3d_def fields n_def [symmetric] p_def [symmetric]
          out_def np_empty_def)
  next
    case False
    have "get_aruco_corners_3d arucos = Inr (Some (NDArray [n, p, 4, 3]
        (concat (map (\<lambda>i. concat (map (\<lambda>j. concat (map (\<lambda>k.
        take 3 (matvec (map (\<lambda>i. map (P i) [0..<p]) [0..<n] ! i ! j) (map F [0..<n] ! i ! k)))
        [0..<4])) [0..<p])) [0..<n]))))"
      using False
      by (simp add: get_aruco_corners_3d_def fields n_def [symmetric] p_def [symmetric]
          poses frames Let_def)
    then show ?thesis by (simp only: data out_def)
  qed
  have okout: "nd_ok out"
  proof -
    have "length (concat (map B [0..<n])) = n * (p * (4 * 3))"
      by (rule length_concat_upt) (rule Bp)
    then show ?thesis by (simp add: nd_ok_def out_def)
  qed
  have entry: "nd_index3 out i j k = Inr (NDArray [3] (G i j k))"
    if i: "i < n" and j: "j < p" and k: "k < 4" for i j k
  proof -
    have "take (p * (4 * 3)) (drop (i * (p * (4 * 3))) (concat (map B [0..<n]))) = B i"
      using Bp i by (rule concat_block_upt)
    then have a: "nd_index out i = Inr (NDArray [p, 4, 3] (B i))"
      using i by (simp add: nd_index_def out_def)
    have "take (4 * 3) (drop (j * (4 * 3)) (concat (map (M i) [0..<p]))) = M i j"
      using M12 j by (rule concat_block_upt)
    then have b: "nd_index (NDArray [p, 4, 3] (B i)) j = Inr (NDArray [4, 3] (M i j))"
      using j by (simp add: nd_index_def B_def)
    have "take 3 (drop (k * 3) (concat (map (G i j) [0..<4]))) = G i j k"
      using G3 k by (rule concat_block_upt)
    then have c: "nd_index (NDArray [4, 3] (M i j)) k = Inr (NDArray [3] (G i j k))"
      using k by (simp add: nd_index_def M_def)
    show ?thesis
      by (simp add: nd_index3_def nd_index2_def a b c)
  qed
  have each: "\<forall>i<n. \<forall>j<p. \<forall>k<4. \<exists>s r t.
               size_at sz i = Inr s
             \<and> nd_index2 rv i j = Inr (NDArray [3] (vec3_list r))
             \<and> nd_index2 tv i j = Inr (NDArray [3] (vec3_list t))
             \<and> nd_index3 out i j k =
                 Inr (NDArray [3] (vec3_list (vadd (mat_vec (Rodrigues r) (obj_points s ! k)) t)))"
    using S Rv Tv entry unfolding G_def by blast
  show "\<exists>out. get_aruco_corners_3d arucos = Inr (Some out)
         \<and> nd_shape out = [n_markers arucos, n_poses arucos, 4, 3]
         \<and> nd_ok out
         \<and> (\<forall>i<n_markers arucos. \<forall>j<n_poses arucos. \<forall>k<4. \<exists>s r t.
               size_at sz i = Inr s
             \<and> nd_index2 rv i j = Inr (NDArray [3] (vec3_list r))
             \<and> nd_index2 tv i j = Inr (NDArray [3] (vec3_list t))
             \<and> nd_index3 out i j k =
                 Inr (NDArray [3] (vec3_list (vadd (mat_vec (Rodrigues r) (obj_points s ! k)) t))))"
    using res okout each unfolding n_def p_def
    by (intro exI [of _ out]) (simp add: out_def n_def p_def)
qed

lemma vec3_list_inject: "vec3_list u = vec3_list v \<Longrightarrow> u = v"
  by (cases u; cases v) simp

text \<open>
  The theorem at the example result: the first candidate pose of its marker is the
  identity rotation with the translation \<open>(0, 0, 1)\<close>, and the first corner of a marker
  of side 2 is \<open>(-1, 1, 0)\<close>.
\<close>

theorem get_aruco_corners_3d_correct_witness:
  "sizes_and_poses example_arucos (NDArray [1] [2]) (NDArray [1, 2, 3] [0, 0, 0, pi / 2, 0, 0])
      (NDArray [1, 2, 3] [0, 0, 1, 0, 0, 2])
   \<and> (\<exists>out. get_aruco_corners_3d example_arucos = Inr (Some out)
         \<and> nd_shape out = [1, 2, 4, 3]
         \<and> nd_index3 out 0 0 0 = Inr (NDArray [3] [- 1, 1, 1]))
   \<and> aruco_sizes (example_arucos\<lparr>aruco_sizes := None\<rparr>) = None
   \<and> get_aruco_corners_3d (example_arucos\<lparr>aruco_sizes := None\<rparr>) = Inr None"
proof -
  let ?sz = "NDArray [1] [2 :: real]"
  let ?rv = "NDArray [1, 2, 3] [0, 0, 0, pi / 2, 0, 0]"
  let ?tv = "NDArray [1, 2, 3] [0, 0, 1, 0, 0, 2 :: real]"
  have wf: "sizes_and_poses example_arucos ?sz ?rv ?tv"
    by (simp add: sizes_and_poses_def example_arucos_def nd_ok_def)
  have n1: "n_markers example_arucos = 1" "n_poses example_arucos = 2"
    by (simp_all add: example_arucos_def)
  note t = get_aruco_corners_3d_correct [of example_arucos ?sz ?rv ?tv 2]
  obtain out where out: "get_aruco_corners_3d example_arucos = Inr (Some out)"
      "nd_shape out = [1, 2, 4, 3]"
      "\<forall>i<1. \<forall>j<2. \<forall>k<4. \<exists>s r t.
               size_at ?sz i = Inr s
             \<and> nd_index2 ?rv i j = Inr (NDArray [3] (vec3_list r))
             \<and> nd_index2 ?tv i j = Inr (NDArray [3] (vec3_list t))
             \<and> nd_index3 out i j k =
                 Inr (NDArray [3] (vec3_list (vadd (mat_vec (Rodrigues r) (obj_points s ! k)) t)))"
    using t [THEN conjunct1, THEN mp, OF wf] unfolding n1 by blast
  note out3 = out(3)
  obtain s r t where e: "size_at ?sz 0 = Inr s"
      "nd_index2 ?rv 0 0 = Inr (NDArray [3] (vec3_list r))"
      "nd_index2 ?tv 0 0 = Inr (NDArray [3] (vec3_list t))"
      "nd_index3 out 0 0 0 =
         Inr (NDArray [3] (vec3_list (vadd (mat_vec (Rodrigues r) (obj_points s ! 0)) t)))"
    using out3 [rule_format, OF zero_less_one zero_less_numeral zero_less_numeral] by blast
  have "s = 2" using e(1) by (simp add: size_at_def nd_index_def)
  moreover have "vec3_list r = vec3_list (0, 0, 0)"
    using e(2) by (simp add: nd_index2_def nd_index_def)
  then have "r = (0, 0, 0)" by (rule vec3_list_inject)
  moreover have "vec3_list t = vec3_list (0, 0, 1)"
    using e(3) by (simp add: nd_index2_def nd_index_def)
  then have "t = (0, 0, 1)" by (rule vec3_list_inject)
  ultimately have v: "nd_index3 out 0 0 0 = Inr (NDArray [3] [- 1, 1, 1])"
    using e(4) by (simp add: obj_points_def DBL_EPSILON_def)
  have nn: "aruco_sizes (example_arucos\<lparr>aruco_sizes := None\<rparr>) = None"
    by simp
  have none: "get_aruco_corners_3d (example_arucos\<lparr>aruco_sizes := None\<rparr>) = Inr None"
    using get_aruco_corners_3d_correct
      [of "example_arucos\<lparr>aruco_sizes := None\<rparr>" ?sz ?rv ?tv 2, THEN conjunct2, THEN conjunct1]
      nn by blast
  have "\<exists>out. get_aruco_corners_3d example_arucos = Inr (Some out)
         \<and> nd_shape out = [1, 2, 4, 3]
         \<and> nd_index3 out 0 0 0 = Inr (NDArray [3] [- 1, 1, 1])"
    using out(1,2) v by blast
  then show ?thesis
    using wf nn none by blast
qed

end
